theory Spec2Isabelle
  imports Complex_Main
begin

section \<open>Values, faults and the execution frame\<close>

text \<open>
  The executors of \<^verbatim>\<open>smali/bridge/executor.py\<close> work on Python values held in the
  registers of a frame. The values that occur are \<^verbatim>\<open>None\<close>, booleans, unbounded integers,
  floats, strings, references to mutable objects (lists and \<^verbatim>\<open>SmaliObject\<close> instances, kept
  in an explicit store), class objects (named by the descriptor the class table knows them
  under) and \<^verbatim>\<open>ExecutionError\<close> objects. A float is given by the real number a finite
  double denotes.
\<close>

datatype pyval =
    VNone
  | VBool bool
  | VInt int
  | VFloat real
  | VStr string
  | VRef nat
  | VClass string
  | VExecutionError string pyval

text \<open>
  What a handler can raise: the module's own \<^verbatim>\<open>ExecutionError(name, payload)\<close> and the
  exceptions of the Python runtime. \<open>Unmodelled\<close> stands for a behaviour of Python that this
  development does not describe (float arithmetic, sequence concatenation and repetition,
  string formatting, comparison of the contents of two objects); no theorem below speaks about
  a run that ends in it.
\<close>

datatype error =
    ExecutionError string pyval
  | KeyError string
  | IndexError
  | TypeError
  | AttributeError
  | ValueError
  | ZeroDivisionError
  | Unmodelled

fun ebind :: "'e + 'a \<Rightarrow> ('a \<Rightarrow> 'e + 'b) \<Rightarrow> 'e + 'b" where
  "ebind (Inl e) k = Inl e"
| "ebind (Inr x) k = k x"

type_synonym target = string

text \<open>
  Modelled from the spec: the class objects of \<^verbatim>\<open>smali.bridge.lang\<close>, which are not part of
  the sources at hand. A class reference exposes \<^verbatim>\<open>method(signature)\<close> and
  \<^verbatim>\<open>field(name)\<close> (a cell with a \<^verbatim>\<open>value\<close>), a name and the descriptor of its direct
  superclass; what a failing lookup raises is left to the collaborator.
\<close>

record smali_class =
  name :: string
  super_cls :: string
  cls_method :: "string \<Rightarrow> error + target"
  cls_field :: "string \<Rightarrow> error + pyval"

text \<open>
  Modelled from the spec: the VM collaborator reached through \<^verbatim>\<open>frame.vm\<close>.
  \<^verbatim>\<open>get_class(descriptor)\<close> reads the class table, \<^verbatim>\<open>call(target, instance, *args)\<close>
  runs a method and is taken as a function of its arguments, and \<open>instance_init\<close> is what
  \<^verbatim>\<open>SmaliObject(cls).init()\<close> leaves in the fields of a new instance of the class. Class
  objects are taken to be truthy.
\<close>

record vm =
  get_class :: "string \<Rightarrow> error + smali_class"
  call :: "target \<Rightarrow> pyval \<Rightarrow> pyval list \<Rightarrow> error + pyval"
  instance_init :: "smali_class \<Rightarrow> error + (string \<rightharpoonup> pyval)"

text \<open>The objects registers can refer to: Python lists and instances of \<^verbatim>\<open>SmaliObject\<close>
  (the descriptor of the class and the fields by name).\<close>

datatype heap_obj =
    PyList "pyval list"
  | SmaliObject string "string \<rightharpoonup> pyval"

datatype switch_table =
    Packed string "string list"
  | Sparse "(string \<times> string) list"

text \<open>
  Modelled from the spec: the frame of \<^verbatim>\<open>smali.bridge.frame\<close>, whose class is not part of
  the sources at hand: a register file keyed by register name, the label table, the cursor
  (\<open>label\<close>, \<open>pos\<close>), the switch and array data tables, the \<open>return_value\<close>,
  \<open>method_return\<close> and \<open>error\<close> slots and the \<open>finished\<close> flag. The store of the
  objects that values refer to is carried along with it; \<open>next_ref\<close> is the address the next
  allocation returns.
\<close>

record frame =
  registers :: "string \<rightharpoonup> pyval"
  labels :: "string \<rightharpoonup> int"
  label :: "string option"
  pos :: int
  return_value :: pyval
  finished :: bool
  method_return :: pyval
  error :: pyval
  switch_data :: "string \<rightharpoonup> switch_table"
  array_data :: "string \<rightharpoonup> pyval"
  vm :: vm
  store :: "nat \<rightharpoonup> heap_obj"
  next_ref :: nat

text \<open>\<^verbatim>\<open>frame[register]\<close> and \<^verbatim>\<open>frame[register] = value\<close>.\<close>

definition getreg :: "frame \<Rightarrow> string \<Rightarrow> error + pyval" where
  "getreg f r = (case registers f r of None \<Rightarrow> Inl (KeyError r) | Some v \<Rightarrow> Inr v)"

definition setreg :: "frame \<Rightarrow> string \<Rightarrow> pyval \<Rightarrow> frame" where
  "setreg f r v = f\<lparr>registers := (registers f)(r \<mapsto> v)\<rparr>"

section \<open>Python's operators on register contents\<close>

text \<open>Booleans count as the integers 0 and 1, as in Python.\<close>

fun int_of :: "pyval \<Rightarrow> int option" where
  "int_of (VInt i) = Some i"
| "int_of (VBool b) = Some (if b then 1 else 0)"
| "int_of _ = None"

fun num_of :: "pyval \<Rightarrow> real option" where
  "num_of (VInt i) = Some (of_int i)"
| "num_of (VBool b) = Some (if b then 1 else 0)"
| "num_of (VFloat r) = Some r"
| "num_of _ = None"

fun str_lt :: "string \<Rightarrow> string \<Rightarrow> bool" where
  "str_lt [] [] = False"
| "str_lt [] (y # ys) = True"
| "str_lt (x # xs) [] = False"
| "str_lt (x # xs) (y # ys) =
     ((of_char x :: nat) < of_char y \<or> (x = y \<and> str_lt xs ys))"

text \<open>
  The ordering comparisons \<^verbatim>\<open><\<close>, \<^verbatim>\<open><=\<close>, \<^verbatim>\<open>>\<close>, \<^verbatim>\<open>>=\<close>: numbers compare by value (an
  integer and a float exactly), strings lexicographically by character code, two references
  by the contents of the objects (not modelled), and anything else raises \<^verbatim>\<open>TypeError\<close>.
\<close>

definition py_order :: "(real \<Rightarrow> real \<Rightarrow> bool) \<Rightarrow> (string \<Rightarrow> string \<Rightarrow> bool) \<Rightarrow>
    pyval \<Rightarrow> pyval \<Rightarrow> error + bool" where
  "py_order num str a b =
     (case (num_of a, num_of b) of
        (Some x, Some y) \<Rightarrow> Inr (num x y)
      | _ \<Rightarrow>
        (case (a, b) of
           (VStr s, VStr t) \<Rightarrow> Inr (str s t)
         | (VRef p, VRef q) \<Rightarrow> Inl Unmodelled
         | _ \<Rightarrow> Inl TypeError))"

definition py_lt :: "pyval \<Rightarrow> pyval \<Rightarrow> error + bool" where
  "py_lt = py_order (\<lambda>x y. x < y) str_lt"

definition py_le :: "pyval \<Rightarrow> pyval \<Rightarrow> error + bool" where
  "py_le = py_order (\<lambda>x y. x \<le> y) (\<lambda>s t. \<not> str_lt t s)"

definition py_gt :: "pyval \<Rightarrow> pyval \<Rightarrow> error + bool" where
  "py_gt = py_order (\<lambda>x y. x > y) (\<lambda>s t. str_lt t s)"

definition py_ge :: "pyval \<Rightarrow> pyval \<Rightarrow> error + bool" where
  "py_ge = py_order (\<lambda>x y. x \<ge> y) (\<lambda>s t. \<not> str_lt s t)"

text \<open>
  \<^verbatim>\<open>==\<close>: numbers by value, strings by content, \<^verbatim>\<open>None\<close> with itself, a reference or a
  class with itself; values of different kinds among \<^verbatim>\<open>None\<close>, numbers and strings are
  unequal. Whether two different objects are equal depends on their contents and classes and
  is not modelled.
\<close>

definition py_eq :: "pyval \<Rightarrow> pyval \<Rightarrow> error + bool" where
  "py_eq a b =
     (case (num_of a, num_of b) of
        (Some x, Some y) \<Rightarrow> Inr (x = y)
      | _ \<Rightarrow>
        (case (a, b) of
           (VStr s, VStr t) \<Rightarrow> Inr (s = t)
         | (VNone, VNone) \<Rightarrow> Inr True
         | (VRef p, VRef q) \<Rightarrow> (if p = q then Inr True else Inl Unmodelled)
         | (VClass c, VClass d) \<Rightarrow> (if c = d then Inr True else Inl Unmodelled)
         | (VRef p, _) \<Rightarrow> Inl Unmodelled
         | (_, VRef q) \<Rightarrow> Inl Unmodelled
         | (VClass c, _) \<Rightarrow> Inl Unmodelled
         | (_, VClass d) \<Rightarrow> Inl Unmodelled
         | (VExecutionError n p, _) \<Rightarrow> Inl Unmodelled
         | (_, VExecutionError n p) \<Rightarrow> Inl Unmodelled
         | _ \<Rightarrow> Inr False))"

definition py_ne :: "pyval \<Rightarrow> pyval \<Rightarrow> error + bool" where
  "py_ne a b = ebind (py_eq a b) (\<lambda>c. Inr (\<not> c))"

text \<open>
  The arithmetic operators on two integers (booleans included); the result is an integer.
  Every other combination of operands (floats, strings, lists, objects) is not modelled.
\<close>

definition py_arith :: "(int \<Rightarrow> int \<Rightarrow> error + int) \<Rightarrow> pyval \<Rightarrow> pyval \<Rightarrow> error + pyval" where
  "py_arith op a b =
     (case (int_of a, int_of b) of
        (Some x, Some y) \<Rightarrow> ebind (op x y) (\<lambda>z. Inr (VInt z))
      | _ \<Rightarrow> Inl Unmodelled)"

definition py_add :: "pyval \<Rightarrow> pyval \<Rightarrow> error + pyval" where
  "py_add = py_arith (\<lambda>x y. Inr (x + y))"

definition py_sub :: "pyval \<Rightarrow> pyval \<Rightarrow> error + pyval" where
  "py_sub = py_arith (\<lambda>x y. Inr (x - y))"

definition py_mul :: "pyval \<Rightarrow> pyval \<Rightarrow> error + pyval" where
  "py_mul = py_arith (\<lambda>x y. Inr (x * y))"

text \<open>\<^verbatim>\<open>//\<close> and \<^verbatim>\<open>%\<close> round towards negative infinity, as \<open>div\<close> and \<open>mod\<close> on
  \<^typ>\<open>int\<close> do, and raise on a zero divisor.\<close>

definition py_floordiv :: "pyval \<Rightarrow> pyval \<Rightarrow> error + pyval" where
  "py_floordiv = py_arith (\<lambda>x y. if y = 0 then Inl ZeroDivisionError else Inr (x div y))"

definition py_mod :: "pyval \<Rightarrow> pyval \<Rightarrow> error + pyval" where
  "py_mod = py_arith (\<lambda>x y. if y = 0 then Inl ZeroDivisionError else Inr (x mod y))"

text \<open>\<^verbatim>\<open>/\<close> always yields a float; only its zero-divisor check is modelled.\<close>

definition py_truediv :: "pyval \<Rightarrow> pyval \<Rightarrow> error + pyval" where
  "py_truediv a b =
     (case (num_of a, num_of b) of
        (Some x, Some y) \<Rightarrow> (if y = 0 then Inl ZeroDivisionError else Inl Unmodelled)
      | _ \<Rightarrow> Inl Unmodelled)"

text \<open>Shifts raise \<^verbatim>\<open>ValueError\<close> on a negative count.\<close>

definition py_lshift :: "pyval \<Rightarrow> pyval \<Rightarrow> error + pyval" where
  "py_lshift = py_arith (\<lambda>x y. if y < 0 then Inl ValueError else Inr (push_bit (nat y) x))"

definition py_rshift :: "pyval \<Rightarrow> pyval \<Rightarrow> error + pyval" where
  "py_rshift = py_arith (\<lambda>x y. if y < 0 then Inl ValueError else Inr (drop_bit (nat y) x))"

text \<open>
  \<^verbatim>\<open>&\<close>, \<^verbatim>\<open>|\<close>, \<^verbatim>\<open>^\<close> work on the two's complement bit pattern of unbounded integers;
  on two booleans they yield a boolean, and they raise \<^verbatim>\<open>TypeError\<close> on everything that is
  not an integer or a boolean (references to objects apart, whose classes may define them).
\<close>

definition py_bitop :: "(int \<Rightarrow> int \<Rightarrow> int) \<Rightarrow> (bool \<Rightarrow> bool \<Rightarrow> bool) \<Rightarrow>
    pyval \<Rightarrow> pyval \<Rightarrow> error + pyval" where
  "py_bitop iop bop a b =
     (case (a, b) of
        (VBool x, VBool y) \<Rightarrow> Inr (VBool (bop x y))
      | (VRef p, _) \<Rightarrow> Inl Unmodelled
      | (_, VRef q) \<Rightarrow> Inl Unmodelled
      | _ \<Rightarrow>
        (case (int_of a, int_of b) of
           (Some x, Some y) \<Rightarrow> Inr (VInt (iop x y))
         | _ \<Rightarrow> Inl TypeError))"

definition py_and :: "pyval \<Rightarrow> pyval \<Rightarrow> error + pyval" where
  "py_and = py_bitop (\<lambda>x y. and x y) (\<lambda>x y. x \<and> y)"

definition py_or :: "pyval \<Rightarrow> pyval \<Rightarrow> error + pyval" where
  "py_or = py_bitop (\<lambda>x y. or x y) (\<lambda>x y. x \<or> y)"

definition py_xor :: "pyval \<Rightarrow> pyval \<Rightarrow> error + pyval" where
  "py_xor = py_bitop (\<lambda>x y. xor x y) (\<lambda>x y. x \<noteq> y)"

section \<open>Control flow\<close>

text \<open>
  Each handler reads and writes the frame of the executor it runs on (\<^verbatim>\<open>self.frame\<close>);
  its model is a function of that frame and of the operands, returning the frame after the
  handler or what the handler raised. \<^verbatim>\<open>goto.action(self, label)\<close>, which the branches
  and switches call, is \<open>goto\<close> on the same frame.
\<close>

definition goto :: "frame \<Rightarrow> string \<Rightarrow> error + frame" where
  "goto f l =
     (if l \<notin> dom (labels f) then Inl (ExecutionError ''NoSuchLabelError'' (VStr l))
      else Inr (f\<lparr>label := Some l, pos := the (labels f l)\<rparr>))"

definition if_le :: "frame \<Rightarrow> string \<Rightarrow> string \<Rightarrow> string \<Rightarrow> error + frame" where
  "if_le f left right l =
     ebind (getreg f left) (\<lambda>a. ebind (getreg f right) (\<lambda>b.
     ebind (py_le a b) (\<lambda>c. if c then goto f l else Inr f)))"

definition if_ge :: "frame \<Rightarrow> string \<Rightarrow> string \<Rightarrow> string \<Rightarrow> error + frame" where
  "if_ge f left right l =
     ebind (getreg f left) (\<lambda>a. ebind (getreg f right) (\<lambda>b.
     ebind (py_ge a b) (\<lambda>c. if c then goto f l else Inr f)))"

definition if_gez :: "frame \<Rightarrow> string \<Rightarrow> string \<Rightarrow> error + frame" where
  "if_gez f left l =
     ebind (getreg f left) (\<lambda>a.
     ebind (py_ge a (VInt 0)) (\<lambda>c. if c then goto f l else Inr f))"

definition if_ltz :: "frame \<Rightarrow> string \<Rightarrow> string \<Rightarrow> error + frame" where
  "if_ltz f left l =
     ebind (getreg f left) (\<lambda>a.
     ebind (py_lt a (VInt 0)) (\<lambda>c. if c then goto f l else Inr f))"

definition if_gt :: "frame \<Rightarrow> string \<Rightarrow> string \<Rightarrow> string \<Rightarrow> error + frame" where
  "if_gt f left right l =
     ebind (getreg f left) (\<lambda>a. ebind (getreg f right) (\<lambda>b.
     ebind (py_gt a b) (\<lambda>c. if c then goto f l else Inr f)))"

definition if_lt :: "frame \<Rightarrow> string \<Rightarrow> string \<Rightarrow> string \<Rightarrow> error + frame" where
  "if_lt f left right l =
     ebind (getreg f left) (\<lambda>a. ebind (getreg f right) (\<lambda>b.
     ebind (py_lt a b) (\<lambda>c. if c then goto f l else Inr f)))"

definition if_gtz :: "frame \<Rightarrow> string \<Rightarrow> string \<Rightarrow> error + frame" where
  "if_gtz f left l =
     ebind (getreg f left) (\<lambda>a.
     ebind (py_gt a (VInt 0)) (\<lambda>c. if c then goto f l else Inr f))"

definition if_ne :: "frame \<Rightarrow> string \<Rightarrow> string \<Rightarrow> string \<Rightarrow> error + frame" where
  "if_ne f left right l =
     ebind (getreg f left) (\<lambda>a. ebind (getreg f right) (\<lambda>b.
     ebind (py_ne a b) (\<lambda>c. if c then goto f l else Inr f)))"

definition if_lez :: "frame \<Rightarrow> string \<Rightarrow> string \<Rightarrow> error + frame" where
  "if_lez f left l =
     ebind (getreg f left) (\<lambda>a.
     ebind (py_le a (VInt 0)) (\<lambda>c. if c then goto f l else Inr f))"

definition if_nez :: "frame \<Rightarrow> string \<Rightarrow> string \<Rightarrow> error + frame" where
  "if_nez f left l =
     ebind (getreg f left) (\<lambda>a.
     ebind (py_ne a (VInt 0)) (\<lambda>c. if c then goto f l else Inr f))"

definition if_eqz :: "frame \<Rightarrow> string \<Rightarrow> string \<Rightarrow> error + frame" where
  "if_eqz f left l =
     ebind (getreg f left) (\<lambda>a.
     ebind (py_eq a (VInt 0)) (\<lambda>c. if c then goto f l else Inr f))"

text \<open>
  \<^verbatim>\<open>xs[i]\<close> on a Python sequence: a negative index counts from the end, an index out of
  range raises \<^verbatim>\<open>IndexError\<close>, an index that is no integer \<^verbatim>\<open>TypeError\<close>.
\<close>

definition py_index :: "'a list \<Rightarrow> pyval \<Rightarrow> error + 'a" where
  "py_index xs i =
     (case int_of i of
        None \<Rightarrow> Inl TypeError
      | Some k \<Rightarrow>
        (let n = int (length xs); j = (if k < 0 then n + k else k)
         in if 0 \<le> j \<and> j < n then Inr (xs ! nat j) else Inl IndexError))"

text \<open>
  \<^verbatim>\<open>switch_value, cases = self.frame.switch_data[data]\<close>: a packed table is the pair itself;
  unpacking a sparse table (a dictionary) binds its keys when there are exactly two of them,
  the second one, a string, then serving as the sequence of its characters.
\<close>

fun unpack_switch :: "switch_table \<Rightarrow> error + string \<times> string list" where
  "unpack_switch (Packed switch_value cases) = Inr (switch_value, cases)"
| "unpack_switch (Sparse [(k1, l1), (k2, l2)]) = Inr (k1, map (\<lambda>c. [c]) k2)"
| "unpack_switch (Sparse _) = Inl ValueError"

text \<open>
  The literal parser \<^verbatim>\<open>SmaliValue\<close> of the \<^verbatim>\<open>smali\<close> package is not part of the sources at
  hand; the handlers that call it take it as the parameter \<open>sv\<close>.
\<close>

definition packed_switch :: "(string \<Rightarrow> error + pyval) \<Rightarrow> frame \<Rightarrow> string \<Rightarrow> string \<Rightarrow>
    error + frame" where
  "packed_switch sv f register data =
     (case switch_data f data of
        None \<Rightarrow> Inl (KeyError data)
      | Some tbl \<Rightarrow>
        ebind (unpack_switch tbl) (\<lambda>(switch_value, cases).
        ebind (getreg f register) (\<lambda>v.
        ebind (sv switch_value) (\<lambda>low.
        ebind (py_sub v low) (\<lambda>idx.
        ebind (py_lt idx (VInt 0)) (\<lambda>c1.
        ebind (if c1 then Inr True else py_ge idx (VInt (int (length cases)))) (\<lambda>c.
        if c then Inr f
        else ebind (py_index cases idx) (\<lambda>l. goto f l))))))))"

fun sparse_scan :: "(string \<Rightarrow> error + pyval) \<Rightarrow> frame \<Rightarrow> pyval \<Rightarrow> (string \<times> string) list \<Rightarrow>
    error + frame" where
  "sparse_scan sv f v [] = Inr f"
| "sparse_scan sv f v ((key, l) # rest) =
     ebind (sv key) (\<lambda>k.
     ebind (py_eq k v) (\<lambda>c.
     if c then goto f l else sparse_scan sv f v rest))"

definition sparse_switch :: "(string \<Rightarrow> error + pyval) \<Rightarrow> frame \<Rightarrow> string \<Rightarrow> string \<Rightarrow>
    error + frame" where
  "sparse_switch sv f register label_name =
     (case switch_data f label_name of
        None \<Rightarrow> Inl (KeyError label_name)
      | Some branches \<Rightarrow>
        ebind (getreg f register) (\<lambda>v.
        case branches of
          Packed switch_value cases \<Rightarrow> Inl AttributeError
        | Sparse items \<Rightarrow> sparse_scan sv f v items))"

text \<open>
  The outcome the specification gives for a jump to a label: \<^verbatim>\<open>NoSuchLabel\<close> when the
  label is not in the frame's label table, otherwise the cursor of the frame set to the
  table's entry.
\<close>

definition jump_outcome :: "frame \<Rightarrow> string \<Rightarrow> error + frame" where
  "jump_outcome f l =
     (case labels f l of
        None \<Rightarrow> Inl (ExecutionError ''NoSuchLabelError'' (VStr l))
      | Some p \<Rightarrow> Inr (f\<lparr>label := Some l, pos := p\<rparr>))"

section \<open>The store, arrays and object construction\<close>

text \<open>A reference always points into the store; a dangling one is outside the model.\<close>

definition deref :: "frame \<Rightarrow> nat \<Rightarrow> error + heap_obj" where
  "deref f a = (case store f a of None \<Rightarrow> Inl Unmodelled | Some ob \<Rightarrow> Inr ob)"

text \<open>A new object gets an address no earlier allocation returned.\<close>

definition alloc :: "frame \<Rightarrow> heap_obj \<Rightarrow> nat \<times> frame" where
  "alloc f ob = (next_ref f, f\<lparr>store := (store f)(next_ref f \<mapsto> ob), next_ref := Suc (next_ref f)\<rparr>)"

text \<open>\<^verbatim>\<open>len(x)\<close>; whether a \<^verbatim>\<open>SmaliObject\<close> has a length is not modelled.\<close>

definition py_len :: "frame \<Rightarrow> pyval \<Rightarrow> error + int" where
  "py_len f v =
     (case v of
        VStr s \<Rightarrow> Inr (int (length s))
      | VRef a \<Rightarrow> ebind (deref f a) (\<lambda>ob.
          case ob of PyList xs \<Rightarrow> Inr (int (length xs)) | SmaliObject c flds \<Rightarrow> Inl Unmodelled)
      | _ \<Rightarrow> Inl TypeError)"

text \<open>Decimal rendering of integers, for the messages of the faults.\<close>

fun str_of_nat :: "nat \<Rightarrow> string" where
  "str_of_nat n =
     (if n < 10 then [char_of (48 + n)] else str_of_nat (n div 10) @ [char_of (48 + n mod 10)])"

declare str_of_nat.simps [simp del]

definition str_of_int :: "int \<Rightarrow> string" where
  "str_of_int i = (if i < 0 then CHR ''-'' # str_of_nat (nat (- i)) else str_of_nat (nat i))"

text \<open>\<^verbatim>\<open>str(x)\<close>, as an f-string renders a value; floats and objects are not modelled.\<close>

definition py_str :: "pyval \<Rightarrow> error + string" where
  "py_str v =
     (case v of
        VInt i \<Rightarrow> Inr (str_of_int i)
      | VBool b \<Rightarrow> Inr (if b then ''True'' else ''False'')
      | VStr s \<Rightarrow> Inr s
      | VNone \<Rightarrow> Inr ''None''
      | _ \<Rightarrow> Inl Unmodelled)"

text \<open>
  \<^verbatim>\<open>container[i]\<close> and \<^verbatim>\<open>container[i] = v\<close>. A \<^verbatim>\<open>SmaliObject\<close> gives access to its
  fields by name (modelled from the spec: the class is not part of the sources at hand);
  what it does for a name it has no field for, or for a key that is no string, is not
  modelled.
\<close>

definition py_getitem :: "frame \<Rightarrow> pyval \<Rightarrow> pyval \<Rightarrow> error + pyval" where
  "py_getitem f c i =
     (case c of
        VStr s \<Rightarrow> ebind (py_index s i) (\<lambda>ch. Inr (VStr [ch]))
      | VRef a \<Rightarrow> ebind (deref f a) (\<lambda>ob.
          case ob of
            PyList xs \<Rightarrow> py_index xs i
          | SmaliObject cls flds \<Rightarrow>
              (case i of
                 VStr nm \<Rightarrow> (case flds nm of None \<Rightarrow> Inl Unmodelled | Some v \<Rightarrow> Inr v)
               | _ \<Rightarrow> Inl Unmodelled))
      | _ \<Rightarrow> Inl TypeError)"

definition py_setitem :: "frame \<Rightarrow> pyval \<Rightarrow> pyval \<Rightarrow> pyval \<Rightarrow> error + frame" where
  "py_setitem f c i v =
     (case c of
        VRef a \<Rightarrow> ebind (deref f a) (\<lambda>ob.
          case ob of
            PyList xs \<Rightarrow>
              (case int_of i of
                 None \<Rightarrow> Inl TypeError
               | Some k \<Rightarrow>
                 (let n = int (length xs); j = (if k < 0 then n + k else k)
                  in if 0 \<le> j \<and> j < n
                     then Inr (f\<lparr>store := (store f)(a \<mapsto> PyList (xs[nat j := v]))\<rparr>)
                     else Inl IndexError))
          | SmaliObject cls flds \<Rightarrow>
              (case i of
                 VStr nm \<Rightarrow> Inr (f\<lparr>store := (store f)(a \<mapsto> SmaliObject cls (flds(nm \<mapsto> v)))\<rparr>)
               | _ \<Rightarrow> Inl Unmodelled))
      | _ \<Rightarrow> Inl TypeError)"

text \<open>\<^verbatim>\<open>array_data.append\<close>: only a list has the method.\<close>

definition py_append :: "frame \<Rightarrow> pyval \<Rightarrow> error + (pyval \<Rightarrow> frame)" where
  "py_append f c =
     (case c of
        VRef a \<Rightarrow> ebind (deref f a) (\<lambda>ob.
          case ob of
            PyList xs \<Rightarrow> Inr (\<lambda>v. f\<lparr>store := (store f)(a \<mapsto> PyList (xs @ [v]))\<rparr>)
          | SmaliObject cls flds \<Rightarrow> Inl Unmodelled)
      | _ \<Rightarrow> Inl AttributeError)"

definition array_length :: "frame \<Rightarrow> string \<Rightarrow> string \<Rightarrow> error + frame" where
  "array_length f dest array =
     ebind (getreg f array) (\<lambda>v. ebind (py_len f v) (\<lambda>n. Inr (setreg f dest (VInt n))))"

definition fill_array_data :: "frame \<Rightarrow> string \<Rightarrow> string \<Rightarrow> error + frame" where
  "fill_array_data f dest l =
     (case array_data f l of None \<Rightarrow> Inl (KeyError l) | Some v \<Rightarrow> Inr (setreg f dest v))"

text \<open>
  The message of the bounds fault,
  \<^verbatim>\<open>f"Index {idx_value} is out of bounds for length {len(array_data)}"\<close>.
\<close>

definition index_error :: "frame \<Rightarrow> pyval \<Rightarrow> pyval \<Rightarrow> error + frame" where
  "index_error f idx_value arr_data =
     ebind (py_str idx_value) (\<lambda>s. ebind (py_len f arr_data) (\<lambda>n.
     Inl (ExecutionError ''IndexOutOfBoundsError''
       (VStr (''Index '' @ s @ '' is out of bounds for length '' @ str_of_int n)))))"

text \<open>
  In \<open>aget\<close> and \<open>aput\<close> the parameter \<open>array\<close> is the name of the register, and the
  bounds are taken from \<^verbatim>\<open>len(array)\<close>, the length of that name.
\<close>

definition aget :: "frame \<Rightarrow> string \<Rightarrow> string \<Rightarrow> string \<Rightarrow> error + frame" where
  "aget f dest array index =
     ebind (getreg f index) (\<lambda>idx_value.
     ebind (getreg f array) (\<lambda>arr_data.
     ebind (py_lt idx_value (VInt 0)) (\<lambda>c1.
     ebind (if c1 then Inr True else py_ge idx_value (VInt (int (length array)))) (\<lambda>c.
     if c then index_error f idx_value arr_data
     else ebind (py_getitem f arr_data idx_value) (\<lambda>v. Inr (setreg f dest v))))))"

definition aput :: "frame \<Rightarrow> string \<Rightarrow> string \<Rightarrow> string \<Rightarrow> error + frame" where
  "aput f src array index =
     ebind (getreg f index) (\<lambda>idx_value.
     ebind (getreg f array) (\<lambda>arr_data.
     ebind (py_lt idx_value (VInt 0)) (\<lambda>c1.
     ebind (if c1 then Inr True else py_gt idx_value (VInt (int (length array)))) (\<lambda>c.
     if c then index_error f idx_value arr_data
     else ebind (py_eq (VInt (int (length array))) idx_value) (\<lambda>e.
       if e then ebind (py_append f arr_data) (\<lambda>append.
                 ebind (getreg f src) (\<lambda>v. Inr (append v)))
       else ebind (getreg f src) (\<lambda>v. py_setitem f arr_data idx_value v))))))"

text \<open>\<^verbatim>\<open>s in t\<close> on two strings: \<open>s\<close> occurs in \<open>t\<close> as a contiguous piece.\<close>

fun starts_with :: "string \<Rightarrow> string \<Rightarrow> bool" where
  "starts_with [] t = True"
| "starts_with (x # xs) [] = False"
| "starts_with (x # xs) (y # ys) = (x = y \<and> starts_with xs ys)"

fun py_in_str :: "string \<Rightarrow> string \<Rightarrow> bool" where
  "py_in_str s [] = (s = [])"
| "py_in_str s (y # ys) = (starts_with s (y # ys) \<or> py_in_str s ys)"

text \<open>
  \<^verbatim>\<open>[x] * n\<close> for the count in a register; the descriptor parser \<^verbatim>\<open>Type\<close> of the
  \<^verbatim>\<open>smali\<close> package is not part of the sources at hand and is the parameter \<open>ty\<close>
  (\<^verbatim>\<open>Type(descriptor).class_name\<close>).
\<close>

definition py_repeat :: "pyval \<Rightarrow> pyval \<Rightarrow> error + pyval list" where
  "py_repeat x n =
     (case n of
        VRef a \<Rightarrow> Inl Unmodelled
      | _ \<Rightarrow> (case int_of n of None \<Rightarrow> Inl TypeError | Some k \<Rightarrow> Inr (replicate (nat k) x)))"

definition new_array :: "(string \<Rightarrow> error + string) \<Rightarrow> frame \<Rightarrow> string \<Rightarrow> string \<Rightarrow> string \<Rightarrow>
    error + frame" where
  "new_array ty f dest count_register descriptor =
     ebind (ty descriptor) (\<lambda>cls.
     ebind (getreg f count_register) (\<lambda>n.
     ebind (py_repeat VNone n) (\<lambda>nones.
     ebind (if py_in_str cls ''BSIJ'' then py_repeat (VInt 0) n
            else if py_in_str cls ''FD'' then py_repeat (VFloat 0) n
            else Inr nones) (\<lambda>values.
     case alloc f (PyList values) of (a, f') \<Rightarrow> Inr (setreg f' dest (VRef a))))))"

text \<open>
  \<open>new_instance\<close>: \<^verbatim>\<open>SmaliObject(smali_class)\<close> followed by \<^verbatim>\<open>instance.init()\<close> is an
  allocation of an instance with the fields the VM's initialiser gives.
\<close>

definition new_instance :: "frame \<Rightarrow> string \<Rightarrow> string \<Rightarrow> error + frame" where
  "new_instance f register descriptor =
     (if py_in_str descriptor ''ISBJ'' then Inr (setreg f register (VInt 0))
      else if py_in_str descriptor ''FD'' then Inr (setreg f register (VFloat 0))
      else if descriptor \<in> set [''Ljava/lang/String;'', ''C'', ''Ljava/lang/Character;'']
        then Inr (setreg f register (VStr []))
      else if descriptor \<in> set [''Ljava/lang/Integer;'', ''Ljava/lang/Byte;'',
                                 ''Ljava/lang/Long'', ''Ljava/lang/Short;'']
        then Inr (setreg f register (VInt 0))
      else if descriptor \<in> set [''Ljava/lang/Boolean'', ''Z'']
        then Inr (setreg f register (VBool False))
      else
        ebind (get_class (vm f) descriptor) (\<lambda>smali_class.
        ebind (instance_init (vm f) smali_class) (\<lambda>flds.
        case alloc f (SmaliObject descriptor flds) of
          (a, f') \<Rightarrow> Inr (setreg f' register (VRef a)))))"

section \<open>Returns, moves, constants and conversions\<close>

definition nop :: "frame \<Rightarrow> error + frame" where
  "nop f = Inr f"

definition return_void :: "frame \<Rightarrow> error + frame" where
  "return_void f = Inr (f\<lparr>return_value := VNone, finished := True\<rparr>)"

definition return_object :: "frame \<Rightarrow> string \<Rightarrow> error + frame" where
  "return_object f register =
     ebind (getreg f register) (\<lambda>v. Inr (f\<lparr>return_value := v, finished := True\<rparr>))"

text \<open>\<open>throw\<close> raises nothing itself: it leaves an \<^verbatim>\<open>ExecutionError('RuntimeError', value)\<close>
  in the error slot of the frame.\<close>

definition throw :: "frame \<Rightarrow> string \<Rightarrow> error + frame" where
  "throw f register =
     ebind (getreg f register) (\<lambda>v. Inr (f\<lparr>error := VExecutionError ''RuntimeError'' v\<rparr>))"

definition const :: "(string \<Rightarrow> error + pyval) \<Rightarrow> frame \<Rightarrow> string \<Rightarrow> string \<Rightarrow> error + frame" where
  "const sv f register literal = ebind (sv literal) (\<lambda>v. Inr (setreg f register v))"

definition const_class :: "frame \<Rightarrow> string \<Rightarrow> string \<Rightarrow> error + frame" where
  "const_class f register descriptor =
     ebind (get_class (vm f) descriptor) (\<lambda>c. Inr (setreg f register (VClass descriptor)))"

definition move_result :: "frame \<Rightarrow> string \<Rightarrow> error + frame" where
  "move_result f register = Inr (setreg f register (method_return f))"

definition move :: "frame \<Rightarrow> string \<Rightarrow> string \<Rightarrow> error + frame" where
  "move f dest src = ebind (getreg f src) (\<lambda>v. Inr (setreg f dest v))"

definition move_exception :: "frame \<Rightarrow> string \<Rightarrow> error + frame" where
  "move_exception f dest = Inr (setreg f dest (error f))"

text \<open>The width conversions mask the integer.\<close>

definition int_to_long :: "frame \<Rightarrow> string \<Rightarrow> string \<Rightarrow> error + frame" where
  "int_to_long f dest src =
     ebind (getreg f src) (\<lambda>v.
     ebind (py_and v (VInt 0xFFFFFFFFFFFFFFFF)) (\<lambda>w. Inr (setreg f dest w)))"

definition int_to_int :: "frame \<Rightarrow> string \<Rightarrow> string \<Rightarrow> error + frame" where
  "int_to_int f dest src =
     ebind (getreg f src) (\<lambda>v.
     ebind (py_and v (VInt 0xFFFFFFFF)) (\<lambda>w. Inr (setreg f dest w)))"

definition int_to_char :: "frame \<Rightarrow> string \<Rightarrow> string \<Rightarrow> error + frame" where
  "int_to_char f dest src =
     ebind (getreg f src) (\<lambda>v.
     ebind (py_and v (VInt 0xFFFF)) (\<lambda>w. Inr (setreg f dest w)))"

text \<open>
  \<^verbatim>\<open>struct.unpack('>i', x)\<close> wants a bytes-like object; none of the values a register
  holds here is one, so the call raises \<^verbatim>\<open>TypeError\<close> once the register is read.
\<close>

definition int_to_byte :: "frame \<Rightarrow> string \<Rightarrow> string \<Rightarrow> error + frame" where
  "int_to_byte f dest src = ebind (getreg f src) (\<lambda>v. Inl TypeError)"

text \<open>\<^verbatim>\<open>float(x)\<close>: exact on booleans, on floats and on the integers a double holds
  exactly; the rounding of larger integers and the parsing of strings are not modelled.\<close>

definition py_float :: "pyval \<Rightarrow> error + pyval" where
  "py_float v =
     (case v of
        VFloat r \<Rightarrow> Inr (VFloat r)
      | VBool b \<Rightarrow> Inr (VFloat (if b then 1 else 0))
      | VInt i \<Rightarrow> (if \<bar>i\<bar> \<le> 2 ^ 53 then Inr (VFloat (of_int i)) else Inl Unmodelled)
      | VNone \<Rightarrow> Inl TypeError
      | _ \<Rightarrow> Inl Unmodelled)"

definition int_to_float :: "frame \<Rightarrow> string \<Rightarrow> string \<Rightarrow> error + frame" where
  "int_to_float f dest src =
     ebind (getreg f src) (\<lambda>v. ebind (py_float v) (\<lambda>w. Inr (setreg f dest w)))"

text \<open>Unary minus is exact on integers and on floats.\<close>

definition py_neg :: "pyval \<Rightarrow> error + pyval" where
  "py_neg v =
     (case v of
        VInt i \<Rightarrow> Inr (VInt (- i))
      | VBool b \<Rightarrow> Inr (VInt (if b then - 1 else 0))
      | VFloat r \<Rightarrow> Inr (VFloat (- r))
      | VRef a \<Rightarrow> Inl Unmodelled
      | _ \<Rightarrow> Inl TypeError)"

definition neg_int :: "frame \<Rightarrow> string \<Rightarrow> string \<Rightarrow> error + frame" where
  "neg_int f dest src =
     ebind (getreg f src) (\<lambda>v. ebind (py_neg v) (\<lambda>w. Inr (setreg f dest w)))"

section \<open>Invocation\<close>

text \<open>The native bridges of \<^verbatim>\<open>smali/bridge/objects.py\<close>: two dictionaries from method
  signatures to Python functions of the receiver.\<close>

definition Class :: "string \<rightharpoonup> (frame \<Rightarrow> pyval \<Rightarrow> error + pyval)" where
  "Class = [''getSimpleName()Ljava/lang/String;'' \<mapsto>
     (\<lambda>f x. case x of
        VClass d \<Rightarrow> ebind (get_class (vm f) d) (\<lambda>c. Inr (VStr (name c)))
      | VRef a \<Rightarrow> Inl Unmodelled
      | _ \<Rightarrow> Inl AttributeError)]"

definition Object :: "string \<rightharpoonup> (frame \<Rightarrow> pyval \<Rightarrow> error + pyval)" where
  "Object = [
     ''toString()Ljava/lang/String;'' \<mapsto> (\<lambda>f x. ebind (py_str x) (\<lambda>s. Inr (VStr s))),
     ''<init>()V'' \<mapsto> (\<lambda>f x. Inr x),
     ''hashCode()I'' \<mapsto> (\<lambda>f x. Inl Unmodelled),
     ''getClass()Ljava/lang/Class;'' \<mapsto>
       (\<lambda>f x. case x of
          VRef a \<Rightarrow> ebind (deref f a) (\<lambda>ob.
            case ob of SmaliObject c flds \<Rightarrow> Inr (VClass c) | PyList xs \<Rightarrow> Inl AttributeError)
        | VClass d \<Rightarrow> Inl Unmodelled
        | _ \<Rightarrow> Inl AttributeError)]"

text \<open>\<^verbatim>\<open>values = [self.frame[register] for register in args]\<close>\<close>

fun getregs :: "frame \<Rightarrow> string list \<Rightarrow> error + pyval list" where
  "getregs f [] = Inr []"
| "getregs f (r # rs) =
     ebind (getreg f r) (\<lambda>v. ebind (getregs f rs) (\<lambda>vs. Inr (v # vs)))"

text \<open>\<^verbatim>\<open>instance.smali_class.super_cls\<close>: only an instance of \<^verbatim>\<open>SmaliObject\<close> is known to
  have a class to ask.\<close>

definition super_cls_of :: "frame \<Rightarrow> pyval \<Rightarrow> error + string" where
  "super_cls_of f instance =
     (case instance of
        VRef a \<Rightarrow> ebind (deref f a) (\<lambda>ob.
          case ob of
            SmaliObject c flds \<Rightarrow> ebind (get_class (vm f) c) (\<lambda>k. Inr (super_cls k))
          | PyList xs \<Rightarrow> Inl AttributeError)
      | VClass d \<Rightarrow> Inl Unmodelled
      | _ \<Rightarrow> Inl AttributeError)"

definition no_such_method :: "string \<Rightarrow> error" where
  "no_such_method m =
     ExecutionError ''NoSuchMethodError'' (VStr (''method '' @ [CHR 0x27] @ m @ [CHR 0x27] @ '' not defined!''))"

definition invoke :: "frame \<Rightarrow> string \<Rightarrow> string list \<Rightarrow> string \<Rightarrow> string \<Rightarrow> error + frame" where
  "invoke f inv_type args owner m =
     (if inv_type \<in> set [''direct'', ''virtual'', ''static''] then
        if owner = ''Ljava/lang/Class;'' then
          ebind (py_index args (VInt 0)) (\<lambda>r. ebind (getreg f r) (\<lambda>vm_class.
          case Class m of
            None \<Rightarrow> Inl (no_such_method m)
          | Some native \<Rightarrow> ebind (native f vm_class) (\<lambda>res. Inr (f\<lparr>method_return := res\<rparr>))))
        else if owner = ''Ljava/lang/Object;'' then
          (case Object m of
             None \<Rightarrow> Inl (no_such_method m)
           | Some native \<Rightarrow>
             ebind (py_index args (VInt 0)) (\<lambda>r. ebind (getreg f r) (\<lambda>x.
             ebind (native f x) (\<lambda>res. Inr (f\<lparr>method_return := res\<rparr>)))))
        else
          ebind (getregs f args) (\<lambda>values.
          ebind (if inv_type \<noteq> ''static'' then
                   ebind (py_index values (VInt 0)) (\<lambda>instance.
                   ebind (super_cls_of f instance) (\<lambda>sup.
                   ebind (if sup = owner then ebind (get_class (vm f) sup) (\<lambda>c. Inr (Some c))
                          else Inr None) (\<lambda>vm_class.
                   Inr (vm_class, instance, tl values))))
                 else Inr (None, VNone, values)) (\<lambda>(vm_class, instance, values).
          ebind (case vm_class of None \<Rightarrow> get_class (vm f) owner | Some c \<Rightarrow> Inr c) (\<lambda>vm_class.
          ebind (cls_method vm_class m) (\<lambda>tgt.
          ebind (call (vm f) tgt instance values) (\<lambda>res.
          Inr (f\<lparr>method_return := res\<rparr>))))))
      else Inr f)"

section \<open>Field access\<close>

text \<open>\<^verbatim>\<open>s.split(sep)\<close> for a separator that is not empty (Python refuses an empty one),
  and the unpacking of its result into exactly two names.\<close>

function py_split :: "string \<Rightarrow> string \<Rightarrow> string \<Rightarrow> string list" where
  "py_split sep acc [] = [rev acc]"
| "py_split sep acc (c # cs) =
     (if sep \<noteq> [] \<and> starts_with sep (c # cs)
      then rev acc # py_split sep [] (drop (length sep - 1) cs)
      else py_split sep (c # acc) cs)"
  by pat_completeness auto
termination
  by (relation "measure (\<lambda>(sep, acc, s). length s)") auto

definition split2 :: "string \<Rightarrow> string \<Rightarrow> error + string \<times> string" where
  "split2 sep s =
     (if sep = [] then Inl ValueError
      else case py_split sep [] s of [a, b] \<Rightarrow> Inr (a, b) | _ \<Rightarrow> Inl ValueError)"

text \<open>
  A static field is a cell of its class; writing it changes the class the table holds under
  the owner's descriptor.
\<close>

definition sput_object :: "frame \<Rightarrow> string \<Rightarrow> string \<Rightarrow> error + frame" where
  "sput_object f register dest =
     ebind (getreg f register) (\<lambda>v.
     ebind (split2 ''->'' dest) (\<lambda>(owner, name_type).
     ebind (split2 '':'' name_type) (\<lambda>(nm, ty).
     ebind (get_class (vm f) owner) (\<lambda>cls.
     ebind (cls_field cls nm) (\<lambda>old.
     Inr (f\<lparr>vm := (vm f)\<lparr>get_class := (get_class (vm f))
            (owner := Inr (cls\<lparr>cls_field := (cls_field cls)(nm := Inr v)\<rparr>))\<rparr>\<rparr>))))))"

definition sget_object :: "frame \<Rightarrow> string \<Rightarrow> string \<Rightarrow> error + frame" where
  "sget_object f register dest =
     ebind (split2 ''->'' dest) (\<lambda>(owner, name_type).
     ebind (split2 '':'' name_type) (\<lambda>(nm, ty).
     ebind (get_class (vm f) owner) (\<lambda>cls.
     ebind (cls_field cls nm) (\<lambda>v. Inr (setreg f register v)))))"

text \<open>
  \<^verbatim>\<open>self.cast(value, SmaliObject)\<close> with its message
  \<^verbatim>\<open>f"Could not cast '{type(value)}' to {classes}"\<close>; how the type of a class object or
  of an error object prints is not modelled.
\<close>

definition type_name :: "frame \<Rightarrow> pyval \<Rightarrow> error + string" where
  "type_name f v =
     (case v of
        VNone \<Rightarrow> Inr ''NoneType''
      | VBool b \<Rightarrow> Inr ''bool''
      | VInt i \<Rightarrow> Inr ''int''
      | VFloat r \<Rightarrow> Inr ''float''
      | VStr s \<Rightarrow> Inr ''str''
      | VRef a \<Rightarrow> ebind (deref f a) (\<lambda>ob.
          case ob of PyList xs \<Rightarrow> Inr ''list''
                   | SmaliObject c flds \<Rightarrow> Inr ''smali.bridge.lang.SmaliObject'')
      | _ \<Rightarrow> Inl Unmodelled)"

definition cast :: "frame \<Rightarrow> pyval \<Rightarrow> error + pyval" where
  "cast f v =
     (case (case v of VRef a \<Rightarrow> (case store f a of Some (SmaliObject c flds) \<Rightarrow> True | _ \<Rightarrow> False)
                     | _ \<Rightarrow> False) of
        True \<Rightarrow> Inr v
      | False \<Rightarrow> ebind (type_name f v) (\<lambda>t.
          Inl (ExecutionError ''ClassCastError''
            (VStr (''Could not cast '' @ [CHR 0x27] @ ''<class '' @ [CHR 0x27] @ t @ [CHR 0x27]
                   @ ''>'' @ [CHR 0x27] @ '' to <class '' @ [CHR 0x27]
                   @ ''smali.bridge.lang.SmaliObject'' @ [CHR 0x27] @ ''>'')))))"

definition iget_object :: "frame \<Rightarrow> string \<Rightarrow> string \<Rightarrow> string \<Rightarrow> error + frame" where
  "iget_object f dest src info =
     ebind (getreg f src) (\<lambda>v.
     ebind (cast f v) (\<lambda>smali_object.
     ebind (split2 ''->'' info) (\<lambda>(owner, field).
     ebind (split2 '':'' field) (\<lambda>(field_name, ty).
     ebind (py_getitem f smali_object (VStr field_name)) (\<lambda>x. Inr (setreg f dest x))))))"

definition iput_object :: "frame \<Rightarrow> string \<Rightarrow> string \<Rightarrow> string \<Rightarrow> error + frame" where
  "iput_object f src obj info =
     ebind (getreg f obj) (\<lambda>v.
     ebind (cast f v) (\<lambda>smali_object.
     ebind (split2 ''->'' info) (\<lambda>(owner, field).
     ebind (split2 '':'' field) (\<lambda>(field_name, ty).
     ebind (getreg f src) (\<lambda>x. py_setitem f smali_object (VStr field_name) x)))))"

section \<open>Arithmetic\<close>

text \<open>
  The three operand shapes. \<open>binop_2addr\<close> is \<^verbatim>\<open>self.frame[dest] op= self.frame[src]\<close>,
  \<open>binop\<close> is \<^verbatim>\<open>self.frame[dest] = self.frame[left] op self.frame[right]\<close>, and
  \<open>binop_lit\<close> is \<^verbatim>\<open>self.frame[dest] = self.frame[left] op (SmaliValue(right) & mask)\<close>.
\<close>

definition binop_2addr :: "(pyval \<Rightarrow> pyval \<Rightarrow> error + pyval) \<Rightarrow> frame \<Rightarrow> string \<Rightarrow> string \<Rightarrow>
    error + frame" where
  "binop_2addr op f dest src =
     ebind (getreg f dest) (\<lambda>a. ebind (getreg f src) (\<lambda>b.
     ebind (op a b) (\<lambda>c. Inr (setreg f dest c))))"

definition binop :: "(pyval \<Rightarrow> pyval \<Rightarrow> error + pyval) \<Rightarrow> frame \<Rightarrow> string \<Rightarrow> string \<Rightarrow> string \<Rightarrow>
    error + frame" where
  "binop op f dest left right =
     ebind (getreg f left) (\<lambda>a. ebind (getreg f right) (\<lambda>b.
     ebind (op a b) (\<lambda>c. Inr (setreg f dest c))))"

definition binop_lit :: "(pyval \<Rightarrow> pyval \<Rightarrow> error + pyval) \<Rightarrow> int \<Rightarrow> (string \<Rightarrow> error + pyval) \<Rightarrow>
    frame \<Rightarrow> string \<Rightarrow> string \<Rightarrow> string \<Rightarrow> error + frame" where
  "binop_lit op msk sv f dest left right =
     ebind (getreg f left) (\<lambda>a. ebind (sv right) (\<lambda>lit.
     ebind (py_and lit (VInt msk)) (\<lambda>b.
     ebind (op a b) (\<lambda>c. Inr (setreg f dest c)))))"

definition or_int__2addr :: "frame \<Rightarrow> string \<Rightarrow> string \<Rightarrow> error + frame" where
  "or_int__2addr = binop_2addr py_or"

definition and_int__2addr :: "frame \<Rightarrow> string \<Rightarrow> string \<Rightarrow> error + frame" where
  "and_int__2addr = binop_2addr py_and"

definition sub_int__2addr :: "frame \<Rightarrow> string \<Rightarrow> string \<Rightarrow> error + frame" where
  "sub_int__2addr = binop_2addr py_sub"

definition xor_int__2addr :: "frame \<Rightarrow> string \<Rightarrow> string \<Rightarrow> error + frame" where
  "xor_int__2addr = binop_2addr py_xor"

definition add_int__2addr :: "frame \<Rightarrow> string \<Rightarrow> string \<Rightarrow> error + frame" where
  "add_int__2addr = binop_2addr py_add"

definition div_int__2addr :: "frame \<Rightarrow> string \<Rightarrow> string \<Rightarrow> error + frame" where
  "div_int__2addr = binop_2addr py_floordiv"

definition div_float__2addr :: "frame \<Rightarrow> string \<Rightarrow> string \<Rightarrow> error + frame" where
  "div_float__2addr = binop_2addr py_truediv"

definition shl_int__2addr :: "frame \<Rightarrow> string \<Rightarrow> string \<Rightarrow> error + frame" where
  "shl_int__2addr = binop_2addr py_lshift"

definition shr_int__2addr :: "frame \<Rightarrow> string \<Rightarrow> string \<Rightarrow> error + frame" where
  "shr_int__2addr = binop_2addr py_rshift"

definition rem_int__2addr :: "frame \<Rightarrow> string \<Rightarrow> string \<Rightarrow> error + frame" where
  "rem_int__2addr = binop_2addr py_mod"

definition mul_int__2addr :: "frame \<Rightarrow> string \<Rightarrow> string \<Rightarrow> error + frame" where
  "mul_int__2addr = binop_2addr py_mul"

definition div_int__lit8 :: "(string \<Rightarrow> error + pyval) \<Rightarrow> frame \<Rightarrow> string \<Rightarrow> string \<Rightarrow> string \<Rightarrow>
    error + frame" where
  "div_int__lit8 = binop_lit py_floordiv 0xFF"

definition div_int__lit16 :: "(string \<Rightarrow> error + pyval) \<Rightarrow> frame \<Rightarrow> string \<Rightarrow> string \<Rightarrow> string \<Rightarrow>
    error + frame" where
  "div_int__lit16 = binop_lit py_floordiv 0xFFFF"

definition add_int__lit8 :: "(string \<Rightarrow> error + pyval) \<Rightarrow> frame \<Rightarrow> string \<Rightarrow> string \<Rightarrow> string \<Rightarrow>
    error + frame" where
  "add_int__lit8 = binop_lit py_add 0xFF"

definition add_int__lit16 :: "(string \<Rightarrow> error + pyval) \<Rightarrow> frame \<Rightarrow> string \<Rightarrow> string \<Rightarrow> string \<Rightarrow>
    error + frame" where
  "add_int__lit16 = binop_lit py_add 0xFFFF"

definition sub_int__lit8 :: "(string \<Rightarrow> error + pyval) \<Rightarrow> frame \<Rightarrow> string \<Rightarrow> string \<Rightarrow> string \<Rightarrow>
    error + frame" where
  "sub_int__lit8 = binop_lit py_sub 0xFF"

definition sub_int__lit16 :: "(string \<Rightarrow> error + pyval) \<Rightarrow> frame \<Rightarrow> string \<Rightarrow> string \<Rightarrow> string \<Rightarrow>
    error + frame" where
  "sub_int__lit16 = binop_lit py_sub 0xFFFF"

definition mul_int__lit8 :: "(string \<Rightarrow> error + pyval) \<Rightarrow> frame \<Rightarrow> string \<Rightarrow> string \<Rightarrow> string \<Rightarrow>
    error + frame" where
  "mul_int__lit8 = binop_lit py_mul 0xFF"

definition mul_int__lit16 :: "(string \<Rightarrow> error + pyval) \<Rightarrow> frame \<Rightarrow> string \<Rightarrow> string \<Rightarrow> string \<Rightarrow>
    error + frame" where
  "mul_int__lit16 = binop_lit py_mul 0xFFFF"

definition rem_int__lit8 :: "(string \<Rightarrow> error + pyval) \<Rightarrow> frame \<Rightarrow> string \<Rightarrow> string \<Rightarrow> string \<Rightarrow>
    error + frame" where
  "rem_int__lit8 = binop_lit py_mod 0xFF"

definition rem_int__lit16 :: "(string \<Rightarrow> error + pyval) \<Rightarrow> frame \<Rightarrow> string \<Rightarrow> string \<Rightarrow> string \<Rightarrow>
    error + frame" where
  "rem_int__lit16 = binop_lit py_mod 0xFFFF"

definition and_int__lit8 :: "(string \<Rightarrow> error + pyval) \<Rightarrow> frame \<Rightarrow> string \<Rightarrow> string \<Rightarrow> string \<Rightarrow>
    error + frame" where
  "and_int__lit8 = binop_lit py_and 0xFF"

definition and_int__lit16 :: "(string \<Rightarrow> error + pyval) \<Rightarrow> frame \<Rightarrow> string \<Rightarrow> string \<Rightarrow> string \<Rightarrow>
    error + frame" where
  "and_int__lit16 = binop_lit py_and 0xFFFF"

definition or_int__lit8 :: "(string \<Rightarrow> error + pyval) \<Rightarrow> frame \<Rightarrow> string \<Rightarrow> string \<Rightarrow> string \<Rightarrow>
    error + frame" where
  "or_int__lit8 = binop_lit py_or 0xFF"

definition or_int__lit16 :: "(string \<Rightarrow> error + pyval) \<Rightarrow> frame \<Rightarrow> string \<Rightarrow> string \<Rightarrow> string \<Rightarrow>
    error + frame" where
  "or_int__lit16 = binop_lit py_or 0xFFFF"

definition xor_int__lit8 :: "(string \<Rightarrow> error + pyval) \<Rightarrow> frame \<Rightarrow> string \<Rightarrow> string \<Rightarrow> string \<Rightarrow>
    error + frame" where
  "xor_int__lit8 = binop_lit py_xor 0xFF"

definition xor_int__lit16 :: "(string \<Rightarrow> error + pyval) \<Rightarrow> frame \<Rightarrow> string \<Rightarrow> string \<Rightarrow> string \<Rightarrow>
    error + frame" where
  "xor_int__lit16 = binop_lit py_xor 0xFFFF"

definition shl_int__lit8 :: "(string \<Rightarrow> error + pyval) \<Rightarrow> frame \<Rightarrow> string \<Rightarrow> string \<Rightarrow> string \<Rightarrow>
    error + frame" where
  "shl_int__lit8 = binop_lit py_lshift 0xFF"

definition shl_int__lit16 :: "(string \<Rightarrow> error + pyval) \<Rightarrow> frame \<Rightarrow> string \<Rightarrow> string \<Rightarrow> string \<Rightarrow>
    error + frame" where
  "shl_int__lit16 = binop_lit py_lshift 0xFFFF"

definition shr_int__lit8 :: "(string \<Rightarrow> error + pyval) \<Rightarrow> frame \<Rightarrow> string \<Rightarrow> string \<Rightarrow> string \<Rightarrow>
    error + frame" where
  "shr_int__lit8 = binop_lit py_rshift 0xFF"

definition shr_int__lit16 :: "(string \<Rightarrow> error + pyval) \<Rightarrow> frame \<Rightarrow> string \<Rightarrow> string \<Rightarrow> string \<Rightarrow>
    error + frame" where
  "shr_int__lit16 = binop_lit py_rshift 0xFFFF"

text \<open>\<open>rsub_int__lit8\<close> has the masked literal on the left:
  \<^verbatim>\<open>self.frame[dest] = (SmaliValue(right) & 0xFF) - self.frame[left]\<close>.\<close>

definition rsub_int__lit8 :: "(string \<Rightarrow> error + pyval) \<Rightarrow> frame \<Rightarrow> string \<Rightarrow> string \<Rightarrow> string \<Rightarrow>
    error + frame" where
  "rsub_int__lit8 sv f dest left right =
     ebind (sv right) (\<lambda>lit. ebind (py_and lit (VInt 0xFF)) (\<lambda>b.
     ebind (getreg f left) (\<lambda>a.
     ebind (py_sub b a) (\<lambda>c. Inr (setreg f dest c)))))"

definition div_int :: "frame \<Rightarrow> string \<Rightarrow> string \<Rightarrow> string \<Rightarrow> error + frame" where
  "div_int = binop py_floordiv"

definition div_float :: "frame \<Rightarrow> string \<Rightarrow> string \<Rightarrow> string \<Rightarrow> error + frame" where
  "div_float = binop py_truediv"

definition add_int :: "frame \<Rightarrow> string \<Rightarrow> string \<Rightarrow> string \<Rightarrow> error + frame" where
  "add_int = binop py_add"

definition sub_int :: "frame \<Rightarrow> string \<Rightarrow> string \<Rightarrow> string \<Rightarrow> error + frame" where
  "sub_int = binop py_sub"

definition rem_int :: "frame \<Rightarrow> string \<Rightarrow> string \<Rightarrow> string \<Rightarrow> error + frame" where
  "rem_int = binop py_mod"

definition mul_int :: "frame \<Rightarrow> string \<Rightarrow> string \<Rightarrow> string \<Rightarrow> error + frame" where
  "mul_int = binop py_mul"

definition or_int :: "frame \<Rightarrow> string \<Rightarrow> string \<Rightarrow> string \<Rightarrow> error + frame" where
  "or_int = binop py_or"

definition and_int :: "frame \<Rightarrow> string \<Rightarrow> string \<Rightarrow> string \<Rightarrow> error + frame" where
  "and_int = binop py_and"

definition xor_int :: "frame \<Rightarrow> string \<Rightarrow> string \<Rightarrow> string \<Rightarrow> error + frame" where
  "xor_int = binop py_xor"

definition shl_int :: "frame \<Rightarrow> string \<Rightarrow> string \<Rightarrow> string \<Rightarrow> error + frame" where
  "shl_int = binop py_lshift"

definition shr_int :: "frame \<Rightarrow> string \<Rightarrow> string \<Rightarrow> string \<Rightarrow> error + frame" where
  "shr_int = binop py_rshift"

section \<open>Executors and the opcode table\<close>

text \<open>
  The operands of an instruction, as the caller leaves them in \<^verbatim>\<open>Executor.args\<close>: strings
  (register names, literals, labels, descriptors) and, for \<open>invoke\<close>, the list of the
  argument registers.
\<close>

datatype operand = OStr string | ORegs "string list"

text \<open>
  A handler function: its \<^verbatim>\<open>__name__\<close> and its body. The body is called as
  \<^verbatim>\<open>self.action(self, *self.args)\<close> and touches nothing of \<^verbatim>\<open>self\<close> but
  \<^verbatim>\<open>self.frame\<close>, so it is a function of that frame and of the operands. A call with
  the wrong number of operands raises \<^verbatim>\<open>TypeError\<close>; an operand of the wrong kind is not
  modelled.
\<close>

record pyfunc =
  fn_name :: string
  body :: "frame \<Rightarrow> operand list \<Rightarrow> error + frame"

definition params0 :: "(frame \<Rightarrow> error + frame) \<Rightarrow> frame \<Rightarrow> operand list \<Rightarrow> error + frame" where
  "params0 h f ops = (case ops of [] \<Rightarrow> h f | _ \<Rightarrow> Inl TypeError)"

definition params1 :: "(frame \<Rightarrow> string \<Rightarrow> error + frame) \<Rightarrow> frame \<Rightarrow> operand list \<Rightarrow>
    error + frame" where
  "params1 h f ops =
     (case ops of
        [OStr a] \<Rightarrow> h f a
      | [_] \<Rightarrow> Inl Unmodelled
      | _ \<Rightarrow> Inl TypeError)"

definition params2 :: "(frame \<Rightarrow> string \<Rightarrow> string \<Rightarrow> error + frame) \<Rightarrow> frame \<Rightarrow> operand list \<Rightarrow>
    error + frame" where
  "params2 h f ops =
     (case ops of
        [OStr a, OStr b] \<Rightarrow> h f a b
      | [_, _] \<Rightarrow> Inl Unmodelled
      | _ \<Rightarrow> Inl TypeError)"

definition params3 :: "(frame \<Rightarrow> string \<Rightarrow> string \<Rightarrow> string \<Rightarrow> error + frame) \<Rightarrow> frame \<Rightarrow>
    operand list \<Rightarrow> error + frame" where
  "params3 h f ops =
     (case ops of
        [OStr a, OStr b, OStr c] \<Rightarrow> h f a b c
      | [_, _, _] \<Rightarrow> Inl Unmodelled
      | _ \<Rightarrow> Inl TypeError)"

definition params_invoke :: "frame \<Rightarrow> operand list \<Rightarrow> error + frame" where
  "params_invoke f ops =
     (case ops of
        [OStr inv_type, ORegs rs, OStr owner, OStr m] \<Rightarrow> invoke f inv_type rs owner m
      | [_, _, _, _] \<Rightarrow> Inl Unmodelled
      | _ \<Rightarrow> Inl TypeError)"

text \<open>
  The class \<^verbatim>\<open>Executor\<close>. An executor keeps, besides its opcode and its action, the frame
  of the dispatch in progress and the operands, as fields that every dispatch overwrites.
\<close>

record executor =
  opcode :: string
  action :: "pyfunc option"
  frame :: "frame option"
  args :: "operand list option"

type_synonym registry = "string \<rightharpoonup> executor"

text \<open>\<^verbatim>\<open>s.replace(old, new)\<close>, replacing the occurrences of \<open>old\<close> from the left.\<close>

function py_replace :: "string \<Rightarrow> string \<Rightarrow> string \<Rightarrow> string" where
  "py_replace old new [] = (if old = [] then new else [])"
| "py_replace old new (c # cs) =
     (if old = [] then new @ c # py_replace old new cs
      else if starts_with old (c # cs) then new @ py_replace old new (drop (length old - 1) cs)
      else c # py_replace old new cs)"
  by pat_completeness auto
termination
  by (relation "measure (\<lambda>(old, new, s). length s)") auto

text \<open>
  The argument \<^verbatim>\<open>map_to\<close>: the list of aliases, or, where the decorator is written
  without a call, the decorated function itself.
\<close>

datatype map_to_arg = Aliases "string list" | Function pyfunc

text \<open>
  \<^verbatim>\<open>Executor.__init__(self, action, name=None, map_to=None)\<close> on the module's table
  \<^verbatim>\<open>__executors__\<close>: the opcode is derived from the name of the action, the executor is
  entered under it and then under every alias, a later entry replacing an earlier one.
  An exception leaves the table as it is at that moment, so it is returned with the table:
  \<^verbatim>\<open>ValueError\<close> before anything is entered, and the \<^verbatim>\<open>TypeError\<close> of iterating over a
  \<^verbatim>\<open>map_to\<close> that is a function after the entry under the opcode.
\<close>

definition Executor :: "pyfunc option \<Rightarrow> string option \<Rightarrow> map_to_arg \<Rightarrow> registry \<Rightarrow>
    error \<times> registry + executor \<times> registry" where
  "Executor act nm map_to reg =
     (let opc = (case act of
                   Some fn \<Rightarrow> Some (py_replace ''_'' ''-'' (py_replace ''__'' ''/'' (fn_name fn)))
                 | None \<Rightarrow> nm)
      in case opc of
           None \<Rightarrow> Inl (ValueError, reg)
         | Some oc \<Rightarrow>
           if oc = [] then Inl (ValueError, reg)
           else let self = \<lparr>opcode = oc, action = act, frame = None, args = None\<rparr>
                in case map_to of
                     Aliases ops \<Rightarrow>
                       Inr (self, fold (\<lambda>op_name r. r(op_name \<mapsto> self)) ops (reg(oc \<mapsto> self)))
                   | Function g \<Rightarrow> Inl (TypeError, reg(oc \<mapsto> self)))"

text \<open>
  \<^verbatim>\<open>OpcodeExecutor(map_to)\<close> returns the inner function \<^verbatim>\<open>wrapper\<close>, which builds the
  executor only when it is applied to a function.
\<close>

definition OpcodeExecutor :: "map_to_arg \<Rightarrow> pyfunc \<Rightarrow> registry \<Rightarrow>
    error \<times> registry + executor \<times> registry" where
  "OpcodeExecutor map_to = (\<lambda>func reg. Executor (Some func) None map_to reg)"

text \<open>
  The decorated definitions of the module, in the order of the file.
  \<^verbatim>\<open>@OpcodeExecutor(map_to=[...])\<close> applies the wrapper to the function;
  \<^verbatim>\<open>@OpcodeExecutor\<close> without a call binds the name to the wrapper, which nothing applies.
\<close>

datatype stmt = Decorated "string list" pyfunc | Decorated_bare pyfunc

fun func_of :: "stmt \<Rightarrow> pyfunc" where
  "func_of (Decorated ops fn) = fn"
| "func_of (Decorated_bare fn) = fn"

fun exec_stmt :: "stmt \<Rightarrow> registry \<Rightarrow> error \<times> registry + registry" where
  "exec_stmt (Decorated ops fn) reg =
     ebind (OpcodeExecutor (Aliases ops) fn reg) (\<lambda>(self, reg'). Inr reg')"
| "exec_stmt (Decorated_bare fn) reg =
     (case OpcodeExecutor (Function fn) of wrapper \<Rightarrow> Inr reg)"

fun exec_stmts :: "stmt list \<Rightarrow> registry \<Rightarrow> error \<times> registry + registry" where
  "exec_stmts [] reg = Inr reg"
| "exec_stmts (s # ss) reg = ebind (exec_stmt s reg) (exec_stmts ss)"

text \<open>\<^verbatim>\<open>executor(name)\<close>, the lookup in the table.\<close>

definition executor_of :: "registry \<Rightarrow> string \<Rightarrow> error + executor" where
  "executor_of reg nm =
     (case reg nm of
        None \<Rightarrow> Inl (KeyError (''Could not find executor for opcode: '' @ nm))
      | Some ex \<Rightarrow> Inr ex)"


text \<open>
  The mnemonic constants of \<^verbatim>\<open>smali.opcode\<close> that the alias lists name are not part of
  the sources at hand; \<open>opc\<close> gives the string each identifier is bound to.
\<close>

definition module_stmts :: "(string \<Rightarrow> error + pyval) \<Rightarrow> (string \<Rightarrow> error + string) \<Rightarrow>
    (string \<Rightarrow> string) \<Rightarrow> stmt list" where
  "module_stmts sv ty opc = [
     Decorated []
       \<lparr>fn_name = ''nop'', body = params0 nop\<rparr>,
     Decorated [opc ''RETURN_VOID_BARRIER'', opc ''RETURN_VOID_NO_BARRIER'']
       \<lparr>fn_name = ''return_void'', body = params0 return_void\<rparr>,
     Decorated [opc ''RETURN'', opc ''RETURN_WIDE'']
       \<lparr>fn_name = ''return_object'', body = params1 return_object\<rparr>,
     Decorated [opc ''GOTO_16'', opc ''GOTO_32'']
       \<lparr>fn_name = ''goto'', body = params1 goto\<rparr>,
     Decorated [opc ''INVOKE_DIRECT'', opc ''INVOKE_STATIC'', opc ''INVOKE_VIRTUAL'']
       \<lparr>fn_name = ''invoke'', body = params_invoke\<rparr>,
     Decorated []
       \<lparr>fn_name = ''throw'', body = params1 throw\<rparr>,
     Decorated []
       \<lparr>fn_name = ''int_to_long'', body = params2 int_to_long\<rparr>,
     Decorated [opc ''LONG_TO_INT'']
       \<lparr>fn_name = ''int_to_int'', body = params2 int_to_int\<rparr>,
     Decorated [opc ''INT_TO_SHORT'']
       \<lparr>fn_name = ''int_to_char'', body = params2 int_to_char\<rparr>,
     Decorated []
       \<lparr>fn_name = ''int_to_byte'', body = params2 int_to_byte\<rparr>,
     Decorated [opc ''INT_TO_DOUBLE'']
       \<lparr>fn_name = ''int_to_float'', body = params2 int_to_float\<rparr>,
     Decorated [opc ''SPUT'', opc ''SPUT_BOOLEAN'', opc ''SPUT_SHORT'', opc ''SPUT_CHAR'', opc ''SPUT_BYTE'', opc ''SPUT_OBJECT_VOLATILE'', opc ''SPUT_WIDE'', opc ''SPUT_WIDE_VOLATILE'']
       \<lparr>fn_name = ''sput_object'', body = params2 sput_object\<rparr>,
     Decorated [opc ''SGET'', opc ''SGET_BOOLEAN'', opc ''SGET_BYTE'', opc ''SGET_OBJECT_VOLATILE'', opc ''SGET_VOLATILE'', opc ''SGET_WIDE'', opc ''SGET_WIDE_VOLATILE'', opc ''SGET_CHAR'']
       \<lparr>fn_name = ''sget_object'', body = params2 sget_object\<rparr>,
     Decorated [opc ''IGET_BOOLEAN'', opc ''IGET_BYTE'', opc ''IGET_CHAR'', opc ''IGET_SHORT'', opc ''IGET_VOLATILE'', opc ''IGET_WIDE'', opc ''IGET'', opc ''IGET_OBJECT_VOLATILE'']
       \<lparr>fn_name = ''iget_object'', body = params3 iget_object\<rparr>,
     Decorated [opc ''IPUT'', opc ''IPUT_BOOLEAN'', opc ''IPUT_BYTE'', opc ''IPUT_CHAR'', opc ''IPUT_SHORT'', opc ''IPUT_OBJECT_VOLATILE'', opc ''IPUT_VOLATILE'', opc ''IPUT_WIDE'']
       \<lparr>fn_name = ''iput_object'', body = params3 iput_object\<rparr>,
     Decorated [opc ''CONST_STRING'', opc ''CONST_STRING_JUMBO'', opc ''CONST_16'', opc ''CONST_4'', opc ''CONST_WIDE'', opc ''CONST_WIDE_HIGH16'', opc ''CONST_WIDE_32'']
       \<lparr>fn_name = ''const'', body = params2 (const sv)\<rparr>,
     Decorated [opc ''CONST_CLASS'']
       \<lparr>fn_name = ''const_class'', body = params2 const_class\<rparr>,
     Decorated [opc ''MOVE_RESULT_OBJECT'']
       \<lparr>fn_name = ''move_result'', body = params1 move_result\<rparr>,
     Decorated []
       \<lparr>fn_name = ''move'', body = params2 move\<rparr>,
     Decorated []
       \<lparr>fn_name = ''move_exception'', body = params1 move_exception\<rparr>,
     Decorated []
       \<lparr>fn_name = ''new_instance'', body = params2 new_instance\<rparr>,
     Decorated []
       \<lparr>fn_name = ''new_array'', body = params3 (new_array ty)\<rparr>,
     Decorated []
       \<lparr>fn_name = ''packed_switch'', body = params2 (packed_switch sv)\<rparr>,
     Decorated_bare
       \<lparr>fn_name = ''sparse_switch'', body = params2 (sparse_switch sv)\<rparr>,
     Decorated []
       \<lparr>fn_name = ''if_le'', body = params3 if_le\<rparr>,
     Decorated []
       \<lparr>fn_name = ''if_ge'', body = params3 if_ge\<rparr>,
     Decorated []
       \<lparr>fn_name = ''if_gez'', body = params2 if_gez\<rparr>,
     Decorated []
       \<lparr>fn_name = ''if_ltz'', body = params2 if_ltz\<rparr>,
     Decorated []
       \<lparr>fn_name = ''if_gt'', body = params3 if_gt\<rparr>,
     Decorated []
       \<lparr>fn_name = ''if_lt'', body = params3 if_lt\<rparr>,
     Decorated []
       \<lparr>fn_name = ''if_gtz'', body = params2 if_gtz\<rparr>,
     Decorated []
       \<lparr>fn_name = ''if_ne'', body = params3 if_ne\<rparr>,
     Decorated []
       \<lparr>fn_name = ''if_lez'', body = params2 if_lez\<rparr>,
     Decorated []
       \<lparr>fn_name = ''if_nez'', body = params2 if_nez\<rparr>,
     Decorated []
       \<lparr>fn_name = ''if_eqz'', body = params2 if_eqz\<rparr>,
     Decorated []
       \<lparr>fn_name = ''array_length'', body = params2 array_length\<rparr>,
     Decorated []
       \<lparr>fn_name = ''fill_array_data'', body = params2 fill_array_data\<rparr>,
     Decorated [opc ''AGET_BOOLEAN'', opc ''AGET_BYTE'', opc ''AGET_CHAR'', opc ''AGET_OBJECT'', opc ''AGET_SHORT'', opc ''AGET_WIDE'']
       \<lparr>fn_name = ''aget'', body = params3 aget\<rparr>,
     Decorated [opc ''APUT_BOOLEAN'', opc ''APUT_BYTE'', opc ''APUT_CHAR'', opc ''APUT_OBJECT'', opc ''APUT_SHORT'', opc ''APUT_WIDE'']
       \<lparr>fn_name = ''aput'', body = params3 aput\<rparr>,
     Decorated [opc ''NEG_DOUBLE'', opc ''NEG_FLOAT'', opc ''NEG_LONG'']
       \<lparr>fn_name = ''neg_int'', body = params2 neg_int\<rparr>,
     Decorated [opc ''OR_LONG_2ADDR'']
       \<lparr>fn_name = ''or_int__2addr'', body = params2 or_int__2addr\<rparr>,
     Decorated [opc ''AND_LONG_2ADDR'']
       \<lparr>fn_name = ''and_int__2addr'', body = params2 and_int__2addr\<rparr>,
     Decorated [opc ''SUB_DOUBLE_2ADDR'', opc ''SUB_FLOAT_2ADDR'', opc ''SUB_LONG_2ADDR'']
       \<lparr>fn_name = ''sub_int__2addr'', body = params2 sub_int__2addr\<rparr>,
     Decorated [opc ''XOR_LONG_2ADDR'']
       \<lparr>fn_name = ''xor_int__2addr'', body = params2 xor_int__2addr\<rparr>,
     Decorated [opc ''ADD_DOUBLE_2ADDR'', opc ''ADD_FLOAT_2ADDR'', opc ''ADD_LONG_2ADDR'']
       \<lparr>fn_name = ''add_int__2addr'', body = params2 add_int__2addr\<rparr>,
     Decorated [opc ''DIV_LONG_2ADDR'']
       \<lparr>fn_name = ''div_int__2addr'', body = params2 div_int__2addr\<rparr>,
     Decorated [opc ''DIV_DOUBLE_2ADDR'']
       \<lparr>fn_name = ''div_float__2addr'', body = params2 div_float__2addr\<rparr>,
     Decorated [opc ''SHL_LONG_2ADDR'']
       \<lparr>fn_name = ''shl_int__2addr'', body = params2 shl_int__2addr\<rparr>,
     Decorated [opc ''SHR_LONG_2ADDR'', opc ''USHR_INT_2ADDR'', opc ''USHR_LONG_2ADDR'']
       \<lparr>fn_name = ''shr_int__2addr'', body = params2 shr_int__2addr\<rparr>,
     Decorated [opc ''REM_DOUBLE_2ADDR'', opc ''REM_FLOAT_2ADDR'', opc ''REM_LONG_2ADDR'']
       \<lparr>fn_name = ''rem_int__2addr'', body = params2 rem_int__2addr\<rparr>,
     Decorated [opc ''MUL_DOUBLE_2ADDR'', opc ''MUL_FLOAT_2ADDR'', opc ''MUL_LONG_2ADDR'']
       \<lparr>fn_name = ''mul_int__2addr'', body = params2 mul_int__2addr\<rparr>,
     Decorated []
       \<lparr>fn_name = ''div_int__lit8'', body = params3 (div_int__lit8 sv)\<rparr>,
     Decorated []
       \<lparr>fn_name = ''div_int__lit16'', body = params3 (div_int__lit16 sv)\<rparr>,
     Decorated []
       \<lparr>fn_name = ''add_int__lit8'', body = params3 (add_int__lit8 sv)\<rparr>,
     Decorated []
       \<lparr>fn_name = ''add_int__lit16'', body = params3 (add_int__lit16 sv)\<rparr>,
     Decorated []
       \<lparr>fn_name = ''sub_int__lit8'', body = params3 (sub_int__lit8 sv)\<rparr>,
     Decorated []
       \<lparr>fn_name = ''sub_int__lit16'', body = params3 (sub_int__lit16 sv)\<rparr>,
     Decorated []
       \<lparr>fn_name = ''mul_int__lit8'', body = params3 (mul_int__lit8 sv)\<rparr>,
     Decorated []
       \<lparr>fn_name = ''mul_int__lit16'', body = params3 (mul_int__lit16 sv)\<rparr>,
     Decorated []
       \<lparr>fn_name = ''rem_int__lit8'', body = params3 (rem_int__lit8 sv)\<rparr>,
     Decorated []
       \<lparr>fn_name = ''rem_int__lit16'', body = params3 (rem_int__lit16 sv)\<rparr>,
     Decorated []
       \<lparr>fn_name = ''and_int__lit8'', body = params3 (and_int__lit8 sv)\<rparr>,
     Decorated []
       \<lparr>fn_name = ''and_int__lit16'', body = params3 (and_int__lit16 sv)\<rparr>,
     Decorated []
       \<lparr>fn_name = ''or_int__lit8'', body = params3 (or_int__lit8 sv)\<rparr>,
     Decorated []
       \<lparr>fn_name = ''or_int__lit16'', body = params3 (or_int__lit16 sv)\<rparr>,
     Decorated []
       \<lparr>fn_name = ''xor_int__lit8'', body = params3 (xor_int__lit8 sv)\<rparr>,
     Decorated []
       \<lparr>fn_name = ''xor_int__lit16'', body = params3 (xor_int__lit16 sv)\<rparr>,
     Decorated []
       \<lparr>fn_name = ''shl_int__lit8'', body = params3 (shl_int__lit8 sv)\<rparr>,
     Decorated []
       \<lparr>fn_name = ''shl_int__lit16'', body = params3 (shl_int__lit16 sv)\<rparr>,
     Decorated []
       \<lparr>fn_name = ''shr_int__lit8'', body = params3 (shr_int__lit8 sv)\<rparr>,
     Decorated []
       \<lparr>fn_name = ''shr_int__lit16'', body = params3 (shr_int__lit16 sv)\<rparr>,
     Decorated []
       \<lparr>fn_name = ''rsub_int__lit8'', body = params3 (rsub_int__lit8 sv)\<rparr>,
     Decorated []
       \<lparr>fn_name = ''div_int'', body = params3 div_int\<rparr>,
     Decorated [opc ''DIV_DOUBLE'']
       \<lparr>fn_name = ''div_float'', body = params3 div_float\<rparr>,
     Decorated [opc ''ADD_DOUBLE'', opc ''ADD_FLOAT'', opc ''ADD_LONG'']
       \<lparr>fn_name = ''add_int'', body = params3 add_int\<rparr>,
     Decorated [opc ''SUB_DOUBLE'', opc ''SUB_FLOAT'', opc ''SUB_LONG'']
       \<lparr>fn_name = ''sub_int'', body = params3 sub_int\<rparr>,
     Decorated [opc ''REM_DOUBLE'', opc ''REM_FLOAT'', opc ''REM_LONG'']
       \<lparr>fn_name = ''rem_int'', body = params3 rem_int\<rparr>,
     Decorated [opc ''MUL_DOUBLE'', opc ''MUL_FLOAT'', opc ''MUL_LONG'']
       \<lparr>fn_name = ''mul_int'', body = params3 mul_int\<rparr>,
     Decorated [opc ''OR_LONG'']
       \<lparr>fn_name = ''or_int'', body = params3 or_int\<rparr>,
     Decorated [opc ''AND_LONG'']
       \<lparr>fn_name = ''and_int'', body = params3 and_int\<rparr>,
     Decorated [opc ''XOR_LONG'']
       \<lparr>fn_name = ''xor_int'', body = params3 xor_int\<rparr>,
     Decorated [opc ''SHL_LONG'']
       \<lparr>fn_name = ''shl_int'', body = params3 shl_int\<rparr>,
     Decorated [opc ''SHR_LONG'', opc ''USHR_LONG'', opc ''USHR_INT'']
       \<lparr>fn_name = ''shr_int'', body = params3 shr_int\<rparr>]"

text \<open>The table \<^verbatim>\<open>__executors__\<close> once the module is loaded.\<close>

definition executors :: "(string \<Rightarrow> error + pyval) \<Rightarrow> (string \<Rightarrow> error + string) \<Rightarrow>
    (string \<Rightarrow> string) \<Rightarrow> error \<times> registry + registry" where
  "executors sv ty opc = exec_stmts (module_stmts sv ty opc) Map.empty"

section \<open>Example data\<close>

text \<open>
  Modelled from the spec: the literal parser, for the decimal integer literals with an
  optional sign only. It stands in for \<^verbatim>\<open>SmaliValue\<close> in the examples.
\<close>

fun dec_digits :: "string \<Rightarrow> nat \<Rightarrow> nat option" where
  "dec_digits [] acc = Some acc"
| "dec_digits (c # cs) acc =
     (let d = (of_char c :: nat)
      in if 48 \<le> d \<and> d \<le> 57 then dec_digits cs (10 * acc + (d - 48)) else None)"

definition dec_literal :: "string \<Rightarrow> error + pyval" where
  "dec_literal s =
     (case s of
        [] \<Rightarrow> Inl ValueError
      | c # cs \<Rightarrow>
        if c = CHR ''-'' then
          (if cs = [] then Inl ValueError
           else case dec_digits cs 0 of None \<Rightarrow> Inl ValueError | Some n \<Rightarrow> Inr (VInt (- int n)))
        else (case dec_digits (c # cs) 0 of None \<Rightarrow> Inl ValueError | Some n \<Rightarrow> Inr (VInt (int n))))"

text \<open>A class \<^verbatim>\<open>LBase;\<close> and a class \<^verbatim>\<open>LDerived;\<close> that extends it; both define
  \<^verbatim>\<open>run()V\<close>.\<close>

definition base_class :: smali_class where
  "base_class = \<lparr>name = ''Base'', super_cls = ''Ljava/lang/Object;'',
     cls_method = (\<lambda>m. if m = ''run()V'' then Inr ''Base.run'' else Inl (KeyError m)),
     cls_field = (\<lambda>n. Inl (KeyError n))\<rparr>"

definition derived_class :: smali_class where
  "derived_class = \<lparr>name = ''Derived'', super_cls = ''LBase;'',
     cls_method = (\<lambda>m. if m = ''run()V'' then Inr ''Derived.run'' else Inl (KeyError m)),
     cls_field = (\<lambda>n. Inl (KeyError n))\<rparr>"

text \<open>The class the example's table holds for the descriptor of \<^verbatim>\<open>java.lang.Boolean\<close>.\<close>

definition boolean_class :: smali_class where
  "boolean_class = \<lparr>name = ''Boolean'', super_cls = ''Ljava/lang/Object;'',
     cls_method = (\<lambda>m. Inl (KeyError m)),
     cls_field = (\<lambda>n. Inl (KeyError n))\<rparr>"

definition example_vm :: vm where
  "example_vm = \<lparr>
     get_class = (\<lambda>d. if d = ''LBase;'' then Inr base_class
                       else if d = ''LDerived;'' then Inr derived_class
                       else if d = ''Ljava/lang/Boolean;'' then Inr boolean_class
                       else Inl (KeyError d)),
     call = (\<lambda>tgt instance values. Inr (VStr tgt)),
     instance_init = (\<lambda>c. Inr Map.empty)\<rparr>"

definition example_frame :: frame where
  "example_frame = \<lparr>
     registers = [''v0'' \<mapsto> VInt 0, ''v1'' \<mapsto> VInt 1, ''v2'' \<mapsto> VInt (- 1),
                  ''v3'' \<mapsto> VRef 0, ''v4'' \<mapsto> VRef 1, ''v5'' \<mapsto> VInt 3,
                  ''v6'' \<mapsto> VInt 2],
     labels = [''L'' \<mapsto> 7],
     label = None,
     pos = 0,
     return_value = VNone,
     finished = False,
     method_return = VNone,
     error = VNone,
     switch_data = [''P'' \<mapsto> Packed ''0'' [''A'', ''L''],
                    ''S'' \<mapsto> Sparse [(''5'', ''A''), (''1'', ''L'')]],
     array_data = Map.empty,
     vm = example_vm,
     store = [0 \<mapsto> PyList [VInt 10, VInt 20, VInt 30],
              1 \<mapsto> SmaliObject ''LDerived;'' Map.empty],
     next_ref = 2\<rparr>"

text \<open>The aliases a statement of the module lists.\<close>

fun aliases_of :: "stmt \<Rightarrow> string list" where
  "aliases_of (Decorated ops fn) = ops"
| "aliases_of (Decorated_bare fn) = []"


section \<open>Properties of the control flow handlers\<close>

lemma goto_jump: "goto f l = jump_outcome f l"
  by (auto simp: goto_def jump_outcome_def split: option.splits)

lemma getreg_Some: "registers f r = Some v \<Longrightarrow> getreg f r = Inr v"
  by (simp add: getreg_def)

lemma sparse_scan_taken:
  "\<forall>(k', l') \<in> set pre. ebind (sv k') (\<lambda>x. py_eq x v) = Inr False \<Longrightarrow>
   ebind (sv k) (\<lambda>x. py_eq x v) = Inr True \<Longrightarrow>
   sparse_scan sv f v (pre @ (k, l) # post) = goto f l"
proof (induction pre)
  case Nil
  then show ?case by (cases "sv k") (auto split: sum.splits)
next
  case (Cons a pre)
  obtain k' l' where a: "a = (k', l')" by (cases a)
  from Cons.prems(1) a have h: "ebind (sv k') (\<lambda>x. py_eq x v) = Inr False" by simp
  then have "sparse_scan sv f v (a # pre @ (k, l) # post) = sparse_scan sv f v (pre @ (k, l) # post)"
    unfolding a by (cases "sv k'") (auto split: sum.splits)
  with Cons show ?case by simp
qed

text \<open>
  Claim C5. Every operation that performs a jump (\<open>goto\<close>, a conditional branch whose
  predicate evaluates to true, a packed or sparse switch whose branch is taken) has the
  outcome of a jump to its label: it fails with \<^verbatim>\<open>NoSuchLabelError\<close> when the label is
  not in the label table of the frame, and otherwise sets the cursor of the frame to the
  label's entry in the table.
\<close>

theorem jump_needs_label:
  "goto f l = jump_outcome f l
   \<and> (\<forall>a b x y. registers f a = Some x \<and> registers f b = Some y \<and> py_le x y = Inr True
        \<longrightarrow> if_le f a b l = jump_outcome f l)
   \<and> (\<forall>a b x y. registers f a = Some x \<and> registers f b = Some y \<and> py_ge x y = Inr True
        \<longrightarrow> if_ge f a b l = jump_outcome f l)
   \<and> (\<forall>a b x y. registers f a = Some x \<and> registers f b = Some y \<and> py_gt x y = Inr True
        \<longrightarrow> if_gt f a b l = jump_outcome f l)
   \<and> (\<forall>a b x y. registers f a = Some x \<and> registers f b = Some y \<and> py_lt x y = Inr True
        \<longrightarrow> if_lt f a b l = jump_outcome f l)
   \<and> (\<forall>a b x y. registers f a = Some x \<and> registers f b = Some y \<and> py_ne x y = Inr True
        \<longrightarrow> if_ne f a b l = jump_outcome f l)
   \<and> (\<forall>a x. registers f a = Some x \<and> py_ge x (VInt 0) = Inr True
        \<longrightarrow> if_gez f a l = jump_outcome f l)
   \<and> (\<forall>a x. registers f a = Some x \<and> py_lt x (VInt 0) = Inr True
        \<longrightarrow> if_ltz f a l = jump_outcome f l)
   \<and> (\<forall>a x. registers f a = Some x \<and> py_gt x (VInt 0) = Inr True
        \<longrightarrow> if_gtz f a l = jump_outcome f l)
   \<and> (\<forall>a x. registers f a = Some x \<and> py_le x (VInt 0) = Inr True
        \<longrightarrow> if_lez f a l = jump_outcome f l)
   \<and> (\<forall>a x. registers f a = Some x \<and> py_ne x (VInt 0) = Inr True
        \<longrightarrow> if_nez f a l = jump_outcome f l)
   \<and> (\<forall>a x. registers f a = Some x \<and> py_eq x (VInt 0) = Inr True
        \<longrightarrow> if_eqz f a l = jump_outcome f l)
   \<and> (\<forall>r d sw cs v lo. switch_data f d = Some (Packed sw cs) \<and> registers f r = Some (VInt v)
          \<and> sv sw = Inr (VInt lo) \<and> 0 \<le> v - lo \<and> v - lo < int (length cs)
          \<and> cs ! nat (v - lo) = l
        \<longrightarrow> packed_switch sv f r d = jump_outcome f l)
   \<and> (\<forall>r d pre k post v. switch_data f d = Some (Sparse (pre @ (k, l) # post))
          \<and> registers f r = Some v
          \<and> (\<forall>(k', l') \<in> set pre. ebind (sv k') (\<lambda>x. py_eq x v) = Inr False)
          \<and> ebind (sv k) (\<lambda>x. py_eq x v) = Inr True
        \<longrightarrow> sparse_switch sv f r d = jump_outcome f l)"
proof -
  have two: "\<And>h p a b x y. (\<And>f a b l. h f a b l =
        ebind (getreg f a) (\<lambda>x. ebind (getreg f b) (\<lambda>y.
        ebind (p x y) (\<lambda>c. if c then goto f l else Inr f)))) \<Longrightarrow>
      registers f a = Some x \<and> registers f b = Some y \<and> p x y = Inr True \<Longrightarrow>
      h f a b l = jump_outcome f l"
    by (simp add: getreg_Some goto_jump)
  have one: "\<And>h p a x. (\<And>f a l. h f a l =
        ebind (getreg f a) (\<lambda>x. ebind (p x (VInt 0)) (\<lambda>c. if c then goto f l else Inr f))) \<Longrightarrow>
      registers f a = Some x \<and> p x (VInt 0) = Inr True \<Longrightarrow>
      h f a l = jump_outcome f l"
    by (simp add: getreg_Some goto_jump)
  have packed: "\<And>r d sw cs v lo. switch_data f d = Some (Packed sw cs) \<and> registers f r = Some (VInt v)
          \<and> sv sw = Inr (VInt lo) \<and> 0 \<le> v - lo \<and> v - lo < int (length cs)
          \<and> cs ! nat (v - lo) = l
        \<Longrightarrow> packed_switch sv f r d = jump_outcome f l"
    by (auto simp add: packed_switch_def getreg_def py_sub_def py_arith_def py_lt_def py_ge_def
        py_order_def py_index_def goto_jump)
  have sparse: "\<And>r d pre k post v. switch_data f d = Some (Sparse (pre @ (k, l) # post))
          \<and> registers f r = Some v
          \<and> (\<forall>(k', l') \<in> set pre. ebind (sv k') (\<lambda>x. py_eq x v) = Inr False)
          \<and> ebind (sv k) (\<lambda>x. py_eq x v) = Inr True
        \<Longrightarrow> sparse_switch sv f r d = jump_outcome f l"
    by (simp add: sparse_switch_def getreg_Some sparse_scan_taken goto_jump)
  note ts = two[of if_le py_le, OF if_le_def] two[of if_ge py_ge, OF if_ge_def]
      two[of if_gt py_gt, OF if_gt_def] two[of if_lt py_lt, OF if_lt_def]
      two[of if_ne py_ne, OF if_ne_def]
      one[of if_gez py_ge, OF if_gez_def] one[of if_ltz py_lt, OF if_ltz_def]
      one[of if_gtz py_gt, OF if_gtz_def] one[of if_lez py_le, OF if_lez_def]
      one[of if_nez py_ne, OF if_nez_def] one[of if_eqz py_eq, OF if_eqz_def]
      packed sparse
  show ?thesis
    by (intro conjI allI impI; (rule goto_jump | (rule ts, assumption)))
qed


lemma example_registers:
  "registers example_frame ''v0'' = Some (VInt 0)"
  "registers example_frame ''v1'' = Some (VInt 1)"
  "registers example_frame ''v2'' = Some (VInt (- 1))"
  "registers example_frame ''v3'' = Some (VRef 0)"
  "registers example_frame ''v4'' = Some (VRef 1)"
  "registers example_frame ''v5'' = Some (VInt 3)"
  "registers example_frame ''v6'' = Some (VInt 2)"
  by (simp_all add: example_frame_def)

lemma dec_literal_examples:
  "dec_literal ''0'' = Inr (VInt 0)"
  "dec_literal ''1'' = Inr (VInt 1)"
  "dec_literal ''5'' = Inr (VInt 5)"
  "dec_literal ''10'' = Inr (VInt 10)"
  "dec_literal ''-1'' = Inr (VInt (- 1))"
  by (simp_all add: dec_literal_def)

text \<open>The operations of claim C5 on the example frame, for a label the table has and for
  two it has not.\<close>

theorem jump_needs_label_witness:
  "if_le example_frame ''v0'' ''v1'' ''L'' = Inr (example_frame\<lparr>label := Some ''L'', pos := 7\<rparr>)
   \<and> if_ge example_frame ''v1'' ''v0'' ''L'' = Inr (example_frame\<lparr>label := Some ''L'', pos := 7\<rparr>)
   \<and> if_gt example_frame ''v1'' ''v0'' ''L'' = Inr (example_frame\<lparr>label := Some ''L'', pos := 7\<rparr>)
   \<and> if_lt example_frame ''v0'' ''v1'' ''L'' = Inr (example_frame\<lparr>label := Some ''L'', pos := 7\<rparr>)
   \<and> if_ne example_frame ''v0'' ''v1'' ''L'' = Inr (example_frame\<lparr>label := Some ''L'', pos := 7\<rparr>)
   \<and> if_gez example_frame ''v0'' ''L'' = Inr (example_frame\<lparr>label := Some ''L'', pos := 7\<rparr>)
   \<and> if_ltz example_frame ''v2'' ''L'' = Inr (example_frame\<lparr>label := Some ''L'', pos := 7\<rparr>)
   \<and> if_gtz example_frame ''v1'' ''L'' = Inr (example_frame\<lparr>label := Some ''L'', pos := 7\<rparr>)
   \<and> if_lez example_frame ''v0'' ''L'' = Inr (example_frame\<lparr>label := Some ''L'', pos := 7\<rparr>)
   \<and> if_nez example_frame ''v1'' ''L'' = Inr (example_frame\<lparr>label := Some ''L'', pos := 7\<rparr>)
   \<and> if_eqz example_frame ''v0'' ''L'' = Inr (example_frame\<lparr>label := Some ''L'', pos := 7\<rparr>)
   \<and> packed_switch dec_literal example_frame ''v1'' ''P''
       = Inr (example_frame\<lparr>label := Some ''L'', pos := 7\<rparr>)
   \<and> sparse_switch dec_literal example_frame ''v1'' ''S''
       = Inr (example_frame\<lparr>label := Some ''L'', pos := 7\<rparr>)
   \<and> if_le example_frame ''v0'' ''v1'' ''M'' = Inl (ExecutionError ''NoSuchLabelError'' (VStr ''M''))
   \<and> packed_switch dec_literal example_frame ''v0'' ''P''
       = Inl (ExecutionError ''NoSuchLabelError'' (VStr ''A''))"
proof -
  note t = jump_needs_label[of example_frame "''L''" dec_literal]
  note m = jump_needs_label[of example_frame "''M''" dec_literal]
  note a = jump_needs_label[of example_frame "''A''" dec_literal]
  have j: "jump_outcome example_frame ''L'' = Inr (example_frame\<lparr>label := Some ''L'', pos := 7\<rparr>)"
    "jump_outcome example_frame ''M'' = Inl (ExecutionError ''NoSuchLabelError'' (VStr ''M''))"
    "jump_outcome example_frame ''A'' = Inl (ExecutionError ''NoSuchLabelError'' (VStr ''A''))"
    by (simp_all add: jump_outcome_def example_frame_def)
  have p: "py_le (VInt 0) (VInt 1) = Inr True" "py_ge (VInt 1) (VInt 0) = Inr True"
    "py_gt (VInt 1) (VInt 0) = Inr True" "py_lt (VInt 0) (VInt 1) = Inr True"
    "py_ne (VInt 0) (VInt 1) = Inr True" "py_ge (VInt 0) (VInt 0) = Inr True"
    "py_lt (VInt (- 1)) (VInt 0) = Inr True" "py_le (VInt 0) (VInt 0) = Inr True"
    "py_ne (VInt 1) (VInt 0) = Inr True" "py_eq (VInt 0) (VInt 0) = Inr True"
    by (simp_all add: py_le_def py_ge_def py_gt_def py_lt_def py_ne_def py_eq_def py_order_def)
  have sd: "switch_data example_frame ''P'' = Some (Packed ''0'' [''A'', ''L''])"
    "switch_data example_frame ''S'' = Some (Sparse ([(''5'', ''A'')] @ (''1'', ''L'') # []))"
    by (simp_all add: example_frame_def)
  have sc: "\<forall>(k', l') \<in> set [(''5'', ''A'')]. ebind (dec_literal k') (\<lambda>x. py_eq x (VInt 1)) = Inr False"
    "ebind (dec_literal ''1'') (\<lambda>x. py_eq x (VInt 1)) = Inr True"
    by (simp_all add: dec_literal_examples py_eq_def)
  have pk: "[''A'', ''L''] ! nat (1 - 0) = ''L''" "(0::int) \<le> 1 - 0" "(1::int) - 0 < int (length [''A'', ''L''])"
    "[''A'', ''L''] ! nat (0 - 0) = ''A''" "(0::int) \<le> 0 - 0" "(0::int) - 0 < int (length [''A'', ''L''])"
    by simp_all
  note r = example_registers and d = dec_literal_examples
  have "if_le example_frame ''v0'' ''v1'' ''L'' = jump_outcome example_frame ''L''"
    by (rule t[THEN conjunct2, THEN conjunct1, rule_format]) (intro conjI, (rule r p sd sc d | simp)+)
  moreover have "if_ge example_frame ''v1'' ''v0'' ''L'' = jump_outcome example_frame ''L''"
    by (rule t[THEN conjunct2, THEN conjunct2, THEN conjunct1, rule_format]) (intro conjI, (rule r p sd sc d | simp)+)
  moreover have "if_gt example_frame ''v1'' ''v0'' ''L'' = jump_outcome example_frame ''L''"
    by (rule t[THEN conjunct2, THEN conjunct2, THEN conjunct2, THEN conjunct1, rule_format]) (intro conjI, (rule r p sd sc d | simp)+)
  moreover have "if_lt example_frame ''v0'' ''v1'' ''L'' = jump_outcome example_frame ''L''"
    by (rule t[THEN conjunct2, THEN conjunct2, THEN conjunct2, THEN conjunct2, THEN conjunct1, rule_format]) (intro conjI, (rule r p sd sc d | simp)+)
  moreover have "if_ne example_frame ''v0'' ''v1'' ''L'' = jump_outcome example_frame ''L''"
    by (rule t[THEN conjunct2, THEN conjunct2, THEN conjunct2, THEN conjunct2, THEN conjunct2, THEN conjunct1, rule_format]) (intro conjI, (rule r p sd sc d | simp)+)
  moreover have "if_gez example_frame ''v0'' ''L'' = jump_outcome example_frame ''L''"
    by (rule t[THEN conjunct2, THEN conjunct2, THEN conjunct2, THEN conjunct2, THEN conjunct2, THEN conjunct2, THEN conjunct1, rule_format]) (intro conjI, (rule r p sd sc d | simp)+)
  moreover have "if_ltz example_frame ''v2'' ''L'' = jump_outcome example_frame ''L''"
    by (rule t[THEN conjunct2, THEN conjunct2, THEN conjunct2, THEN conjunct2, THEN conjunct2, THEN conjunct2, THEN conjunct2, THEN conjunct1, rule_format]) (intro conjI, (rule r p sd sc d | simp)+)
  moreover have "if_gtz example_frame ''v1'' ''L'' = jump_outcome example_frame ''L''"
    by (rule t[THEN conjunct2, THEN conjunct2, THEN conjunct2, THEN conjunct2, THEN conjunct2, THEN conjunct2, THEN conjunct2, THEN conjunct2, THEN conjunct1, rule_format]) (intro conjI, (rule r p sd sc d | simp)+)
  moreover have "if_lez example_frame ''v0'' ''L'' = jump_outcome example_frame ''L''"
    by (rule t[THEN conjunct2, THEN conjunct2, THEN conjunct2, THEN conjunct2, THEN conjunct2, THEN conjunct2, THEN conjunct2, THEN conjunct2, THEN conjunct2, THEN conjunct1, rule_format]) (intro conjI, (rule r p sd sc d | simp)+)
  moreover have "if_nez example_frame ''v1'' ''L'' = jump_outcome example_frame ''L''"
    by (rule t[THEN conjunct2, THEN conjunct2, THEN conjunct2, THEN conjunct2, THEN conjunct2, THEN conjunct2, THEN conjunct2, THEN conjunct2, THEN conjunct2, THEN conjunct2, THEN conjunct1, rule_format]) (intro conjI, (rule r p sd sc d | simp)+)
  moreover have "if_eqz example_frame ''v0'' ''L'' = jump_outcome example_frame ''L''"
    by (rule t[THEN conjunct2, THEN conjunct2, THEN conjunct2, THEN conjunct2, THEN conjunct2, THEN conjunct2, THEN conjunct2, THEN conjunct2, THEN conjunct2, THEN conjunct2, THEN conjunct2, THEN conjunct1, rule_format]) (intro conjI, (rule r p sd sc d | simp)+)
  moreover have "packed_switch dec_literal example_frame ''v1'' ''P'' = jump_outcome example_frame ''L''"
    by (rule t[THEN conjunct2, THEN conjunct2, THEN conjunct2, THEN conjunct2, THEN conjunct2, THEN conjunct2, THEN conjunct2, THEN conjunct2, THEN conjunct2, THEN conjunct2, THEN conjunct2, THEN conjunct2, THEN conjunct1, rule_format]) (intro conjI, (rule r p sd sc d | simp)+)
  moreover have "sparse_switch dec_literal example_frame ''v1'' ''S'' = jump_outcome example_frame ''L''"
    by (rule t[THEN conjunct2, THEN conjunct2, THEN conjunct2, THEN conjunct2, THEN conjunct2, THEN conjunct2, THEN conjunct2, THEN conjunct2, THEN conjunct2, THEN conjunct2, THEN conjunct2, THEN conjunct2, THEN conjunct2, rule_format]) (intro conjI, (rule r p sd sc d | simp)+)
  moreover have "if_le example_frame ''v0'' ''v1'' ''M'' = jump_outcome example_frame ''M''"
    by (rule m[THEN conjunct2, THEN conjunct1, rule_format]) (intro conjI, (rule r p sd sc d | simp)+)
  moreover have "packed_switch dec_literal example_frame ''v0'' ''P'' = jump_outcome example_frame ''A''"
    by (rule a[THEN conjunct2, THEN conjunct2, THEN conjunct2, THEN conjunct2, THEN conjunct2, THEN conjunct2, THEN conjunct2, THEN conjunct2, THEN conjunct2, THEN conjunct2, THEN conjunct2, THEN conjunct2, THEN conjunct1, rule_format]) (intro conjI, (rule r p sd sc d | simp)+)
  ultimately show ?thesis
    unfolding j by blast
qed

text \<open>
  Claim C6. For a packed switch whose table is \<open>(low, branches)\<close>, the branch index is
  the value of the scrutinee register minus the low value; with the index outside
  \<open>[0, length branches)\<close> the handler returns the frame as it was, and with the index in
  range it is \<open>goto\<close> to \<open>branches[index]\<close>.
\<close>

theorem packed_switch_index:
  assumes "switch_data f d = Some (Packed sw cs)"
    and "registers f r = Some (VInt v)"
    and "sv sw = Inr (VInt lo)"
  shows "packed_switch sv f r d =
           (if v - lo < 0 \<or> v - lo \<ge> int (length cs) then Inr f
            else goto f (cs ! nat (v - lo)))"
  using assms
  by (auto simp add: packed_switch_def getreg_def py_sub_def py_arith_def py_lt_def py_ge_def
      py_order_def py_index_def)

theorem packed_switch_index_witness:
  "packed_switch dec_literal example_frame ''v5'' ''P'' = Inr example_frame
   \<and> packed_switch dec_literal example_frame ''v2'' ''P'' = Inr example_frame
   \<and> packed_switch dec_literal example_frame ''v1'' ''P''
       = Inr (example_frame\<lparr>label := Some ''L'', pos := 7\<rparr>)"
proof -
  have sd: "switch_data example_frame ''P'' = Some (Packed ''0'' [''A'', ''L''])"
    by (simp add: example_frame_def)
  have g: "goto example_frame ''L'' = Inr (example_frame\<lparr>label := Some ''L'', pos := 7\<rparr>)"
    by (simp add: goto_def example_frame_def)
  show ?thesis
    using packed_switch_index[where sv = dec_literal, OF sd example_registers(6) dec_literal_examples(1)]
      packed_switch_index[where sv = dec_literal, OF sd example_registers(3) dec_literal_examples(1)]
      packed_switch_index[where sv = dec_literal, OF sd example_registers(2) dec_literal_examples(1)] g
    by simp
qed

section \<open>Literal operands\<close>

lemma and_255: "and n (255::int) = n mod 256"
proof -
  have "and n (255::int) = take_bit 8 n"
    by (simp add: take_bit_eq_mask mask_eq_exp_minus_1)
  then show ?thesis by (simp add: take_bit_eq_mod)
qed

lemma masked_literal:
  "py_and (VInt n) (VInt 0xFF) = Inr (VInt (n mod 256))"
  by (simp add: py_and_def py_bitop_def and_255)

text \<open>
  Claim C8. Every arithmetic or bitwise operation of the \<open>lit8\<close> family parses its
  literal operand and masks it to eight unsigned bits (\<open>n mod 256\<close> for the parsed integer
  \<open>n\<close>, whatever its sign) before it applies the operator to the left register and the
  masked literal and writes the result to the destination register, leaving the rest of the
  frame as it was; \<open>rsub_int__lit8\<close> subtracts the left register from the masked literal.
  With the literal \<open>-1\<close> the masked operand is 255, so \<open>and_int__lit8\<close> stores
  \<open>left & 0xFF\<close>; with the literal 10 and 3 in the left register \<open>rsub_int__lit8\<close>
  stores 7 (both are in the witness).
\<close>

theorem lit8_masks_literal:
  assumes "registers f left = Some (VInt a)" and "sv right = Inr (VInt n)"
  shows "add_int__lit8 sv f dest left right = Inr (f\<lparr>registers := (registers f)(dest \<mapsto> VInt (a + n mod 256))\<rparr>)
    \<and> sub_int__lit8 sv f dest left right = Inr (f\<lparr>registers := (registers f)(dest \<mapsto> VInt (a - n mod 256))\<rparr>)
    \<and> mul_int__lit8 sv f dest left right = Inr (f\<lparr>registers := (registers f)(dest \<mapsto> VInt (a * (n mod 256)))\<rparr>)
    \<and> div_int__lit8 sv f dest left right =
        (if n mod 256 = 0 then Inl ZeroDivisionError
         else Inr (f\<lparr>registers := (registers f)(dest \<mapsto> VInt (a div (n mod 256)))\<rparr>))
    \<and> rem_int__lit8 sv f dest left right =
        (if n mod 256 = 0 then Inl ZeroDivisionError
         else Inr (f\<lparr>registers := (registers f)(dest \<mapsto> VInt (a mod (n mod 256)))\<rparr>))
    \<and> and_int__lit8 sv f dest left right = Inr (f\<lparr>registers := (registers f)(dest \<mapsto> VInt (and a (n mod 256)))\<rparr>)
    \<and> or_int__lit8 sv f dest left right = Inr (f\<lparr>registers := (registers f)(dest \<mapsto> VInt (or a (n mod 256)))\<rparr>)
    \<and> xor_int__lit8 sv f dest left right = Inr (f\<lparr>registers := (registers f)(dest \<mapsto> VInt (xor a (n mod 256)))\<rparr>)
    \<and> shl_int__lit8 sv f dest left right = Inr (f\<lparr>registers := (registers f)(dest \<mapsto> VInt (a * 2 ^ nat (n mod 256)))\<rparr>)
    \<and> shr_int__lit8 sv f dest left right = Inr (f\<lparr>registers := (registers f)(dest \<mapsto> VInt (a div 2 ^ nat (n mod 256)))\<rparr>)
    \<and> rsub_int__lit8 sv f dest left right = Inr (f\<lparr>registers := (registers f)(dest \<mapsto> VInt (n mod 256 - a))\<rparr>)"
  using assms
  by (simp add: add_int__lit8_def sub_int__lit8_def mul_int__lit8_def div_int__lit8_def
      rem_int__lit8_def and_int__lit8_def or_int__lit8_def xor_int__lit8_def shl_int__lit8_def
      shr_int__lit8_def rsub_int__lit8_def binop_lit_def getreg_def masked_literal
      py_add_def py_sub_def py_mul_def py_floordiv_def py_mod_def py_and_def py_or_def py_xor_def
      py_lshift_def py_rshift_def py_arith_def py_bitop_def push_bit_eq_mult drop_bit_eq_div and_255
      setreg_def)

theorem lit8_masks_literal_witness:
  "and_int__lit8 dec_literal example_frame ''v9'' ''v2'' ''-1''
     = Inr (example_frame\<lparr>registers := (registers example_frame)(''v9'' \<mapsto> VInt 255)\<rparr>)
   \<and> and_int__lit8 dec_literal example_frame ''v9'' ''v5'' ''-1''
     = Inr (example_frame\<lparr>registers := (registers example_frame)(''v9'' \<mapsto> VInt 3)\<rparr>)
   \<and> rsub_int__lit8 dec_literal example_frame ''v9'' ''v5'' ''10''
     = Inr (example_frame\<lparr>registers := (registers example_frame)(''v9'' \<mapsto> VInt 7)\<rparr>)
   \<and> add_int__lit8 dec_literal example_frame ''v9'' ''v5'' ''-1''
     = Inr (example_frame\<lparr>registers := (registers example_frame)(''v9'' \<mapsto> VInt 258)\<rparr>)"
  using lit8_masks_literal[where sv = dec_literal and dest = "''v9''",
          OF example_registers(3) dec_literal_examples(5)]
    lit8_masks_literal[where sv = dec_literal and dest = "''v9''",
          OF example_registers(6) dec_literal_examples(5)]
    lit8_masks_literal[where sv = dec_literal and dest = "''v9''",
          OF example_registers(6) dec_literal_examples(4)]
  by simp

section \<open>Invocation of a superclass method\<close>

lemma getregs_cons:
  "getregs f (r # rs) = Inr (v # vs) \<longleftrightarrow> getreg f r = Inr v \<and> getregs f rs = Inr vs"
  by (cases "getreg f r"; cases "getregs f rs") auto

text \<open>
  Claim C4. A direct or virtual \<open>invoke\<close> whose owner is neither of the two intrinsic
  classes and equals the direct superclass of the class of the receiver resolves the method
  on the class the table gives for the owner, whatever the receiver's own class defines
  under the signature, calls it through the VM with the receiver and the remaining
  arguments, and leaves the result in \<open>method_return\<close>; no register changes.
\<close>

theorem invoke_super:
  assumes "inv_type = ''direct'' \<or> inv_type = ''virtual''"
    and "owner \<noteq> ''Ljava/lang/Class;''" and "owner \<noteq> ''Ljava/lang/Object;''"
    and "getregs f (r # rs) = Inr (VRef a # values)"
    and "store f a = Some (SmaliObject c flds)"
    and "get_class (vm f) c = Inr own" and "super_cls own = owner"
    and "get_class (vm f) owner = Inr super"
    and "cls_method super m = Inr tgt"
    and "call (vm f) tgt (VRef a) values = Inr res"
  shows "invoke f inv_type (r # rs) owner m = Inr (f\<lparr>method_return := res\<rparr>)"
proof -
  have t: "inv_type \<in> set [''direct'', ''virtual'', ''static'']" "inv_type \<noteq> ''static''"
    using assms(1) by auto
  have s: "super_cls_of f (VRef a) = Inr owner"
    using assms(5,6,7) by (simp add: super_cls_of_def deref_def)
  show ?thesis
    unfolding invoke_def using t assms(2,3,4,8,9,10) s
    by (simp add: py_index_def)
qed

text \<open>In the example both \<^verbatim>\<open>LBase;\<close> and \<^verbatim>\<open>LDerived;\<close> define \<^verbatim>\<open>run()V\<close>, and the
  receiver is an instance of \<^verbatim>\<open>LDerived;\<close>.\<close>

theorem invoke_super_witness:
  "cls_method derived_class ''run()V'' = Inr ''Derived.run''
   \<and> invoke example_frame ''virtual'' [''v4''] ''LBase;'' ''run()V''
       = Inr (example_frame\<lparr>method_return := VStr ''Base.run''\<rparr>)
   \<and> invoke example_frame ''direct'' [''v4''] ''LBase;'' ''run()V''
       = Inr (example_frame\<lparr>method_return := VStr ''Base.run''\<rparr>)"
proof -
  have o: "''LBase;'' \<noteq> ''Ljava/lang/Class;''" "''LBase;'' \<noteq> ''Ljava/lang/Object;''"
    by simp_all
  have g: "getregs example_frame [''v4''] = Inr [VRef 1]"
    by (simp add: getreg_def example_registers)
  have st: "store example_frame 1 = Some (SmaliObject ''LDerived;'' Map.empty)"
    by (simp add: example_frame_def)
  have c: "get_class (vm example_frame) ''LDerived;'' = Inr derived_class"
    "get_class (vm example_frame) ''LBase;'' = Inr base_class"
    by (simp_all add: example_frame_def example_vm_def)
  have su: "super_cls derived_class = ''LBase;''"
    by (simp add: derived_class_def)
  have m: "cls_method base_class ''run()V'' = Inr ''Base.run''"
    by (simp add: base_class_def)
  have ca: "call (vm example_frame) ''Base.run'' (VRef 1) [] = Inr (VStr ''Base.run'')"
    by (simp add: example_frame_def example_vm_def)
  have d: "cls_method derived_class ''run()V'' = Inr ''Derived.run''"
    by (simp add: derived_class_def)
  show ?thesis
    using invoke_super[where inv_type = "''virtual''", OF _ o g st c(1) su c(2) m ca]
      invoke_super[where inv_type = "''direct''", OF _ o g st c(1) su c(2) m ca] d
    by simp
qed

section \<open>Array access\<close>

lemma example_store:
  "store example_frame 0 = Some (PyList [VInt 10, VInt 20, VInt 30])"
  "store example_frame 1 = Some (SmaliObject ''LDerived;'' Map.empty)"
  by (simp_all add: example_frame_def)

lemma str_of_int_examples:
  "str_of_int 2 = ''2''" "str_of_int 3 = ''3''"
  by (simp_all add: str_of_int_def str_of_nat.simps char_of_def bit_0)

text \<open>
  Claim C3 says that \<open>aget\<close> fails with \<^verbatim>\<open>IndexOutOfBoundsError\<close> exactly when the
  index is negative or not below the length of the array, and otherwise writes the element
  to the destination. The handler compares the index with \<^verbatim>\<open>len(array)\<close>, the length
  of the name of the register, while its message reports \<^verbatim>\<open>len(array_data)\<close>. In the
  example frame register \<^verbatim>\<open>v3\<close> holds a list of three elements and \<^verbatim>\<open>v6\<close> holds 2:
  the read of the last element fails, with a message that contradicts itself.
\<close>

theorem aget_in_range_fails:
  "aget example_frame ''v9'' ''v3'' ''v6''
     = Inl (ExecutionError ''IndexOutOfBoundsError''
         (VStr ''Index 2 is out of bounds for length 3''))"
  by (simp add: aget_def getreg_def example_registers py_lt_def py_ge_def py_order_def
      index_error_def py_str_def py_len_def deref_def example_store str_of_int_examples)

text \<open>
  Claim C2 says that \<open>aput\<close> appends when the index equals the length of the array,
  overwrites when the index is below it, and fails with \<^verbatim>\<open>IndexOutOfBoundsError\<close>
  otherwise. The handler takes both the bound and the test for appending from
  \<^verbatim>\<open>len(array)\<close>, the length of the name of the register. With the list of three
  elements in \<^verbatim>\<open>v3\<close>, index 2 (in \<^verbatim>\<open>v6\<close>) appends a fourth element instead of
  overwriting the third, and index 3 (in \<^verbatim>\<open>v5\<close>), the length of the list, is refused
  instead of appending.
\<close>

theorem aput_bounds_from_register_name:
  "aput example_frame ''v1'' ''v3'' ''v6''
     = Inr (example_frame\<lparr>store := (store example_frame)
         (0 \<mapsto> PyList [VInt 10, VInt 20, VInt 30, VInt 1])\<rparr>)
   \<and> aput example_frame ''v1'' ''v3'' ''v5''
     = Inl (ExecutionError ''IndexOutOfBoundsError''
         (VStr ''Index 3 is out of bounds for length 3''))"
  by (simp add: aput_def getreg_def example_registers py_lt_def py_gt_def py_eq_def py_order_def
      index_error_def py_str_def py_len_def deref_def example_store str_of_int_examples
      py_append_def)

section \<open>Object construction\<close>

text \<open>
  Claim C9 says that \<open>new_instance\<close> stores a default value, without allocating, for the
  primitive and wrapper descriptors, \<^verbatim>\<open>false\<close> for \<^verbatim>\<open>Boolean\<close> and \<^verbatim>\<open>Z\<close> among
  them, and builds an instance through the class table for every other descriptor. The
  handler lists the wrapper of \<^verbatim>\<open>boolean\<close> as \<^verbatim>\<open>Ljava/lang/Boolean\<close>, without the
  semicolon that ends a class descriptor (the entries for \<^verbatim>\<open>String\<close>, \<^verbatim>\<open>Character\<close>,
  \<^verbatim>\<open>Integer\<close>, \<^verbatim>\<open>Byte\<close> and \<^verbatim>\<open>Short\<close> have it): for the descriptor
  \<^verbatim>\<open>Ljava/lang/Boolean;\<close> it asks the class table and stores a new instance.
\<close>

theorem new_instance_boolean_wrapper:
  "new_instance example_frame ''v9'' ''Ljava/lang/Boolean;''
     = Inr (setreg (example_frame\<lparr>store := (store example_frame)
              (2 \<mapsto> SmaliObject ''Ljava/lang/Boolean;'' Map.empty), next_ref := 3\<rparr>)
            ''v9'' (VRef 2))
   \<and> new_instance example_frame ''v9'' ''Z'' = Inr (setreg example_frame ''v9'' (VBool False))
   \<and> new_instance example_frame ''v9'' ''Ljava/lang/Boolean''
     = Inr (setreg example_frame ''v9'' (VBool False))"
  by (simp add: new_instance_def alloc_def example_frame_def example_vm_def)

section \<open>The table of executors\<close>

lemma fold_upd_lookup:
  "fold (\<lambda>k r. r(k \<mapsto> v)) ks m x = (if x \<in> set ks then Some v else m x)"
  by (induction ks arbitrary: m) auto

lemma exec_stmt_Decorated:
  assumes "py_replace ''_'' ''-'' (py_replace ''__'' ''/'' (fn_name fn)) \<noteq> []"
  shows "\<exists>reg'. exec_stmt (Decorated ops fn) reg = Inr reg'
     \<and> (\<forall>x. reg' x =
          (if x \<in> set ops \<or> x = py_replace ''_'' ''-'' (py_replace ''__'' ''/'' (fn_name fn))
           then Some \<lparr>opcode = py_replace ''_'' ''-'' (py_replace ''__'' ''/'' (fn_name fn)),
                      action = Some fn, frame = None, args = None\<rparr>
           else reg x))"
  using assms by (simp add: OpcodeExecutor_def Executor_def Let_def fold_upd_lookup)

lemma exec_stmts_miss:
  assumes "\<forall>s \<in> set ss. py_replace ''_'' ''-'' (py_replace ''__'' ''/'' (fn_name (func_of s))) \<noteq> []"
    and "\<forall>s \<in> set ss. \<forall>ops fn. s = Decorated ops fn \<longrightarrow>
           py_replace ''_'' ''-'' (py_replace ''__'' ''/'' (fn_name fn)) \<noteq> x \<and> fn_name fn \<noteq> n"
    and "x \<notin> set (concat (map aliases_of ss))"
    and "reg x = None"
    and "\<forall>k ex. reg k = Some ex \<longrightarrow> map_option fn_name (action ex) \<noteq> Some n"
  shows "\<exists>reg'. exec_stmts ss reg = Inr reg' \<and> reg' x = None
     \<and> (\<forall>k ex. reg' k = Some ex \<longrightarrow> map_option fn_name (action ex) \<noteq> Some n)"
  using assms
proof (induction ss arbitrary: reg)
  case Nil
  then show ?case by simp
next
  case (Cons s ss)
  show ?case
  proof (cases s)
    case (Decorated ops fn)
    from Cons.prems(1) Decorated
    have ne: "py_replace ''_'' ''-'' (py_replace ''__'' ''/'' (fn_name fn)) \<noteq> []"
      by simp
    from Cons.prems(2) Decorated
    have nx: "py_replace ''_'' ''-'' (py_replace ''__'' ''/'' (fn_name fn)) \<noteq> x" "fn_name fn \<noteq> n"
      by simp_all
    from Cons.prems(3) Decorated have na: "x \<notin> set ops" "x \<notin> set (concat (map aliases_of ss))"
      by simp_all
    from exec_stmt_Decorated[OF ne, of ops reg] obtain reg1 where
      r1: "exec_stmt (Decorated ops fn) reg = Inr reg1"
      and l1: "\<And>y. reg1 y =
          (if y \<in> set ops \<or> y = py_replace ''_'' ''-'' (py_replace ''__'' ''/'' (fn_name fn))
           then Some \<lparr>opcode = py_replace ''_'' ''-'' (py_replace ''__'' ''/'' (fn_name fn)),
                      action = Some fn, frame = None, args = None\<rparr>
           else reg y)"
      by blast
    have a: "reg1 x = None"
      using l1[of x] nx(1) na(1) Cons.prems(4) by simp
    have b: "\<forall>k ex. reg1 k = Some ex \<longrightarrow> map_option fn_name (action ex) \<noteq> Some n"
    proof (intro allI impI)
      fix k ex assume h: "reg1 k = Some ex"
      show "map_option fn_name (action ex) \<noteq> Some n"
      proof (cases "k \<in> set ops \<or> k = py_replace ''_'' ''-'' (py_replace ''__'' ''/'' (fn_name fn))")
        case True
        with h l1[of k] have "action ex = Some fn" by auto
        with nx(2) show ?thesis by simp
      next
        case False
        with h l1[of k] have "reg k = Some ex" by simp
        with Cons.prems(5) show ?thesis by blast
      qed
    qed
    from Cons.prems(1,2) have c:
      "\<forall>s \<in> set ss. py_replace ''_'' ''-'' (py_replace ''__'' ''/'' (fn_name (func_of s))) \<noteq> []"
      "\<forall>s \<in> set ss. \<forall>ops fn. s = Decorated ops fn \<longrightarrow>
           py_replace ''_'' ''-'' (py_replace ''__'' ''/'' (fn_name fn)) \<noteq> x \<and> fn_name fn \<noteq> n"
      by simp_all
    from Cons.IH[OF c na(2) a b] r1 Decorated show ?thesis by simp
  next
    case (Decorated_bare fn)
    from Cons.prems(1,2) have c:
      "\<forall>s \<in> set ss. py_replace ''_'' ''-'' (py_replace ''__'' ''/'' (fn_name (func_of s))) \<noteq> []"
      "\<forall>s \<in> set ss. \<forall>ops fn. s = Decorated ops fn \<longrightarrow>
           py_replace ''_'' ''-'' (py_replace ''__'' ''/'' (fn_name fn)) \<noteq> x \<and> fn_name fn \<noteq> n"
      by simp_all
    from Cons.prems(3) Decorated_bare have na: "x \<notin> set (concat (map aliases_of ss))"
      by simp
    from Cons.IH[OF c na Cons.prems(4,5)] Decorated_bare show ?thesis by simp
  qed
qed

lemma module_names_nonempty:
  "\<forall>s \<in> set (module_stmts sv ty opc).
     py_replace ''_'' ''-'' (py_replace ''__'' ''/'' (fn_name (func_of s))) \<noteq> []"
  by (simp add: module_stmts_def)

lemma module_names_not_sparse:
  "\<forall>s \<in> set (module_stmts sv ty opc). \<forall>ops fn. s = Decorated ops fn \<longrightarrow>
     py_replace ''_'' ''-'' (py_replace ''__'' ''/'' (fn_name fn)) \<noteq> ''sparse-switch''
     \<and> fn_name fn \<noteq> ''sparse_switch''"
  by (simp add: module_stmts_def)


lemma exec_stmts_keeps:
  assumes "\<forall>s \<in> set ss. py_replace ''_'' ''-'' (py_replace ''__'' ''/'' (fn_name (func_of s))) \<noteq> []"
    and "reg x \<noteq> None"
  shows "\<exists>reg'. exec_stmts ss reg = Inr reg' \<and> reg' x \<noteq> None"
  using assms
proof (induction ss arbitrary: reg)
  case Nil
  then show ?case by simp
next
  case (Cons s ss)
  from Cons.prems(1) have c:
    "\<forall>s \<in> set ss. py_replace ''_'' ''-'' (py_replace ''__'' ''/'' (fn_name (func_of s))) \<noteq> []"
    by simp
  show ?case
  proof (cases s)
    case (Decorated ops fn)
    from Cons.prems(1) Decorated
    have ne: "py_replace ''_'' ''-'' (py_replace ''__'' ''/'' (fn_name fn)) \<noteq> []"
      by simp
    from exec_stmt_Decorated[OF ne, of ops reg] obtain reg1 where
      r1: "exec_stmt (Decorated ops fn) reg = Inr reg1"
      and l1: "\<And>y. reg1 y =
          (if y \<in> set ops \<or> y = py_replace ''_'' ''-'' (py_replace ''__'' ''/'' (fn_name fn))
           then Some \<lparr>opcode = py_replace ''_'' ''-'' (py_replace ''__'' ''/'' (fn_name fn)),
                      action = Some fn, frame = None, args = None\<rparr>
           else reg y)"
      by blast
    have "reg1 x \<noteq> None"
      using l1[of x] Cons.prems(2) by simp
    from Cons.IH[of reg1, OF c this] r1 Decorated show ?thesis by simp
  next
    case (Decorated_bare fn)
    from Cons.IH[of reg, OF c Cons.prems(2)] Decorated_bare show ?thesis by simp
  qed
qed

lemma module_registers_nop:
  "\<exists>reg. executors sv ty opc = Inr reg \<and> reg ''nop'' \<noteq> None"
proof -
  obtain rest where m: "module_stmts sv ty opc
      = Decorated [] \<lparr>fn_name = ''nop'', body = params0 nop\<rparr> # rest"
    by (simp add: module_stmts_def)
  have ne: "\<forall>s \<in> set rest. py_replace ''_'' ''-'' (py_replace ''__'' ''/'' (fn_name (func_of s))) \<noteq> []"
    using module_names_nonempty[of sv ty opc] unfolding m by simp
  have n: "py_replace ''_'' ''-'' (py_replace ''__'' ''/'' (fn_name \<lparr>fn_name = ''nop'', body = params0 nop\<rparr>)) \<noteq> []"
    by simp
  from exec_stmt_Decorated[OF n, of "[]" Map.empty] obtain reg1 where
    r1: "exec_stmt (Decorated [] \<lparr>fn_name = ''nop'', body = params0 nop\<rparr>) Map.empty = Inr reg1"
    and l1: "reg1 ''nop'' \<noteq> None"
    by auto
  from exec_stmts_keeps[of rest reg1 "''nop''", OF ne l1] r1 show ?thesis
    by (simp add: executors_def m)
qed

text \<open>
  Claim C10. Once the module is loaded, looking up \<^verbatim>\<open>sparse-switch\<close> in the table of
  executors fails with the \<^verbatim>\<open>KeyError\<close> of an unknown opcode, provided that none of the
  mnemonic constants the alias lists name is that string: \<open>sparse_switch\<close> is decorated
  with \<^verbatim>\<open>@OpcodeExecutor\<close> without a call, so the module holds the function with its
  body, but no executor in the table has it as its action.
\<close>

theorem sparse_switch_unknown:
  assumes "''sparse-switch'' \<notin> set (concat (map aliases_of (module_stmts sv ty opc)))"
  shows "\<exists>reg. executors sv ty opc = Inr reg
     \<and> executor_of reg ''sparse-switch''
         = Inl (KeyError ''Could not find executor for opcode: sparse-switch'')
     \<and> (\<forall>k ex. reg k = Some ex \<longrightarrow> map_option fn_name (action ex) \<noteq> Some ''sparse_switch'')
     \<and> Decorated_bare \<lparr>fn_name = ''sparse_switch'', body = params2 (sparse_switch sv)\<rparr>
         \<in> set (module_stmts sv ty opc)"
proof -
  have e: "Map.empty ''sparse-switch'' = (None :: executor option)"
    "\<forall>k ex. (Map.empty :: registry) k = Some ex
        \<longrightarrow> map_option fn_name (action ex) \<noteq> Some ''sparse_switch''"
    by simp_all
  from exec_stmts_miss[OF module_names_nonempty module_names_not_sparse assms e]
  obtain reg where r: "executors sv ty opc = Inr reg" "reg ''sparse-switch'' = None"
    "\<forall>k ex. reg k = Some ex \<longrightarrow> map_option fn_name (action ex) \<noteq> Some ''sparse_switch''"
    unfolding executors_def by blast
  have "Decorated_bare \<lparr>fn_name = ''sparse_switch'', body = params2 (sparse_switch sv)\<rparr>
         \<in> set (module_stmts sv ty opc)"
    by (simp add: module_stmts_def)
  with r show ?thesis
    by (simp add: executor_of_def)
qed

text \<open>The table with every mnemonic constant bound to its own identifier: \<^verbatim>\<open>nop\<close> is
  registered, \<^verbatim>\<open>sparse-switch\<close> is not.\<close>

theorem sparse_switch_unknown_witness:
  "\<exists>reg. executors dec_literal (\<lambda>d. Inr d) (\<lambda>ident. ident) = Inr reg
     \<and> reg ''nop'' \<noteq> None
     \<and> (\<forall>k ex. reg k = Some ex \<longrightarrow> map_option fn_name (action ex) \<noteq> Some ''sparse_switch'')
     \<and> executor_of reg ''sparse-switch''
         = Inl (KeyError ''Could not find executor for opcode: sparse-switch'')"
proof -
  have a: "''sparse-switch''
      \<notin> set (concat (map aliases_of (module_stmts dec_literal (\<lambda>d. Inr d) (\<lambda>ident. ident))))"
    by (simp add: module_stmts_def)
  from sparse_switch_unknown[OF a] module_registers_nop[of dec_literal "\<lambda>d. Inr d" "\<lambda>ident. ident"]
  show ?thesis by auto
qed

section \<open>The error slot\<close>

text \<open>
  Changing the error slot of the frame before a handler runs changes nothing but the error
  slot of the frame after it: first for the operations the handlers are built from.
\<close>

lemma ebind_cong_right: "(\<And>x. m = Inr x \<Longrightarrow> k x = k' x) \<Longrightarrow> ebind m k = ebind m k'"
  by (cases m) auto

lemma map_sum_ebind: "map_sum id g (ebind m k) = ebind m (\<lambda>x. map_sum id g (k x))"
  by (cases m) auto

lemma error_update_last [simp]:
  "\<And>k. registers_update k (error_update k' f) = error_update k' (registers_update k f)"
  "\<And>k. labels_update k (error_update k' f) = error_update k' (labels_update k f)"
  "\<And>k. label_update k (error_update k' f) = error_update k' (label_update k f)"
  "\<And>k. pos_update k (error_update k' f) = error_update k' (pos_update k f)"
  "\<And>k. return_value_update k (error_update k' f) = error_update k' (return_value_update k f)"
  "\<And>k. finished_update k (error_update k' f) = error_update k' (finished_update k f)"
  "\<And>k. method_return_update k (error_update k' f) = error_update k' (method_return_update k f)"
  "\<And>k. switch_data_update k (error_update k' f) = error_update k' (switch_data_update k f)"
  "\<And>k. array_data_update k (error_update k' f) = error_update k' (array_data_update k f)"
  "\<And>k. vm_update k (error_update k' f) = error_update k' (vm_update k f)"
  "\<And>k. store_update k (error_update k' f) = error_update k' (store_update k f)"
  "\<And>k. next_ref_update k (error_update k' f) = error_update k' (next_ref_update k f)"
  by simp_all

lemma ebind_map_sum: "ebind (map_sum id g m) k = ebind m (\<lambda>x. k (g x))"
  by (cases m) auto

lemma getreg_error [simp]: "getreg (f\<lparr>error := e\<rparr>) r = getreg f r"
  by (simp add: getreg_def)

lemma getregs_error [simp]: "getregs (f\<lparr>error := e\<rparr>) rs = getregs f rs"
  by (induction rs) auto

lemma setreg_error [simp]: "setreg (f\<lparr>error := e\<rparr>) r v = (setreg f r v)\<lparr>error := e\<rparr>"
  by (simp add: setreg_def)

lemma deref_error [simp]: "deref (f\<lparr>error := e\<rparr>) a = deref f a"
  by (simp add: deref_def)

lemma py_len_error [simp]: "py_len (f\<lparr>error := e\<rparr>) v = py_len f v"
  by (simp add: py_len_def split: pyval.split)

lemma py_getitem_error [simp]: "py_getitem (f\<lparr>error := e\<rparr>) c i = py_getitem f c i"
  by (simp add: py_getitem_def split: pyval.split)

lemma type_name_error [simp]: "type_name (f\<lparr>error := e\<rparr>) v = type_name f v"
  by (simp add: type_name_def split: pyval.split)

lemma cast_error [simp]: "cast (f\<lparr>error := e\<rparr>) v = cast f v"
  by (simp add: cast_def cong: pyval.case_cong bool.case_cong)

lemma super_cls_of_error [simp]: "super_cls_of (f\<lparr>error := e\<rparr>) v = super_cls_of f v"
  by (simp add: super_cls_of_def split: pyval.split)

lemma goto_error:
  "goto (f\<lparr>error := e\<rparr>) l = map_sum id (error_update (\<lambda>_. e)) (goto f l)"
  by (simp add: goto_def)

lemma index_error_error:
  "index_error (f\<lparr>error := e\<rparr>) i a = map_sum id (error_update (\<lambda>_. e)) (index_error f i a)"
  by (simp add: index_error_def map_sum_ebind)

lemma py_setitem_error:
  "py_setitem (f\<lparr>error := e\<rparr>) c i v = map_sum id (error_update (\<lambda>_. e)) (py_setitem f c i v)"
  by (auto simp add: py_setitem_def map_sum_ebind Let_def intro!: ebind_cong_right
      split: pyval.splits heap_obj.splits option.splits)

lemma py_append_error:
  "py_append (f\<lparr>error := e\<rparr>) c
     = map_sum id (\<lambda>g v. (g v)\<lparr>error := e\<rparr>) (py_append f c)"
  by (auto simp add: py_append_def map_sum_ebind fun_eq_iff intro!: ebind_cong_right
      split: pyval.splits heap_obj.splits option.splits)

lemma branch2_error:
  assumes "\<And>f a b l. h f a b l =
        ebind (getreg f a) (\<lambda>x. ebind (getreg f b) (\<lambda>y.
        ebind (p x y) (\<lambda>c. if c then goto f l else Inr f)))"
  shows "h (f\<lparr>error := e\<rparr>) a b l = map_sum id (error_update (\<lambda>_. e)) (h f a b l)"
  by (simp add: assms map_sum_ebind goto_error if_distrib[of "map_sum id (error_update (\<lambda>_. e))"] cong: if_cong)

lemma branch1_error:
  assumes "\<And>f a l. h f a l =
        ebind (getreg f a) (\<lambda>x. ebind (p x (VInt 0)) (\<lambda>c. if c then goto f l else Inr f))"
  shows "h (f\<lparr>error := e\<rparr>) a l = map_sum id (error_update (\<lambda>_. e)) (h f a l)"
  by (simp add: assms map_sum_ebind goto_error if_distrib[of "map_sum id (error_update (\<lambda>_. e))"] cong: if_cong)

lemma binop_error:
  "binop op (f\<lparr>error := e\<rparr>) d l r = map_sum id (error_update (\<lambda>_. e)) (binop op f d l r)"
  by (simp add: binop_def map_sum_ebind)

lemma binop_2addr_error:
  "binop_2addr op (f\<lparr>error := e\<rparr>) d s = map_sum id (error_update (\<lambda>_. e)) (binop_2addr op f d s)"
  by (simp add: binop_2addr_def map_sum_ebind)

lemma binop_lit_error:
  "binop_lit op m sv (f\<lparr>error := e\<rparr>) d l r
     = map_sum id (error_update (\<lambda>_. e)) (binop_lit op m sv f d l r)"
  by (simp add: binop_lit_def map_sum_ebind)

lemma nop_error:
  "nop (f\<lparr>error := e\<rparr>)  = map_sum id (error_update (\<lambda>_. e)) (nop f )"
  by (simp add: nop_def)

lemma return_void_error:
  "return_void (f\<lparr>error := e\<rparr>)  = map_sum id (error_update (\<lambda>_. e)) (return_void f )"
  by (simp add: return_void_def)

lemma return_object_error:
  "return_object (f\<lparr>error := e\<rparr>) r = map_sum id (error_update (\<lambda>_. e)) (return_object f r)"
  by (simp add: return_object_def map_sum_ebind)

lemma int_to_long_error:
  "int_to_long (f\<lparr>error := e\<rparr>) d s = map_sum id (error_update (\<lambda>_. e)) (int_to_long f d s)"
  by (simp add: int_to_long_def map_sum_ebind)

lemma int_to_int_error:
  "int_to_int (f\<lparr>error := e\<rparr>) d s = map_sum id (error_update (\<lambda>_. e)) (int_to_int f d s)"
  by (simp add: int_to_int_def map_sum_ebind)

lemma int_to_char_error:
  "int_to_char (f\<lparr>error := e\<rparr>) d s = map_sum id (error_update (\<lambda>_. e)) (int_to_char f d s)"
  by (simp add: int_to_char_def map_sum_ebind)

lemma int_to_byte_error:
  "int_to_byte (f\<lparr>error := e\<rparr>) d s = map_sum id (error_update (\<lambda>_. e)) (int_to_byte f d s)"
  by (simp add: int_to_byte_def map_sum_ebind)

lemma int_to_float_error:
  "int_to_float (f\<lparr>error := e\<rparr>) d s = map_sum id (error_update (\<lambda>_. e)) (int_to_float f d s)"
  by (simp add: int_to_float_def map_sum_ebind)

lemma neg_int_error:
  "neg_int (f\<lparr>error := e\<rparr>) d s = map_sum id (error_update (\<lambda>_. e)) (neg_int f d s)"
  by (simp add: neg_int_def map_sum_ebind)

lemma move_error:
  "move (f\<lparr>error := e\<rparr>) d s = map_sum id (error_update (\<lambda>_. e)) (move f d s)"
  by (simp add: move_def map_sum_ebind)

lemma move_result_error:
  "move_result (f\<lparr>error := e\<rparr>) r = map_sum id (error_update (\<lambda>_. e)) (move_result f r)"
  by (simp add: move_result_def)

lemma const_class_error:
  "const_class (f\<lparr>error := e\<rparr>) r n = map_sum id (error_update (\<lambda>_. e)) (const_class f r n)"
  by (simp add: const_class_def map_sum_ebind)

lemma array_length_error:
  "array_length (f\<lparr>error := e\<rparr>) d a = map_sum id (error_update (\<lambda>_. e)) (array_length f d a)"
  by (simp add: array_length_def map_sum_ebind)

lemma fill_array_data_error:
  "fill_array_data (f\<lparr>error := e\<rparr>) d l = map_sum id (error_update (\<lambda>_. e)) (fill_array_data f d l)"
  by (simp add: fill_array_data_def split: option.split)

lemma sget_object_error:
  "sget_object (f\<lparr>error := e\<rparr>) r d = map_sum id (error_update (\<lambda>_. e)) (sget_object f r d)"
  by (simp add: sget_object_def map_sum_ebind split_def)

lemma sput_object_error:
  "sput_object (f\<lparr>error := e\<rparr>) r d = map_sum id (error_update (\<lambda>_. e)) (sput_object f r d)"
  by (simp add: sput_object_def map_sum_ebind split_def)

lemma iget_object_error:
  "iget_object (f\<lparr>error := e\<rparr>) d s i = map_sum id (error_update (\<lambda>_. e)) (iget_object f d s i)"
  by (simp add: iget_object_def map_sum_ebind split_def)

lemma iput_object_error:
  "iput_object (f\<lparr>error := e\<rparr>) s ob i = map_sum id (error_update (\<lambda>_. e)) (iput_object f s ob i)"
  by (simp add: iput_object_def map_sum_ebind split_def py_setitem_error)

lemma const_error:
  "const sv (f\<lparr>error := e\<rparr>) r v = map_sum id (error_update (\<lambda>_. e)) (const sv f r v)"
  by (simp add: const_def map_sum_ebind)

lemma alloc_error:
  "alloc (f\<lparr>error := e\<rparr>) ob = (fst (alloc f ob), (snd (alloc f ob))\<lparr>error := e\<rparr>)"
  by (simp add: alloc_def)

lemma new_array_error:
  "new_array ty (f\<lparr>error := e\<rparr>) d c t = map_sum id (error_update (\<lambda>_. e)) (new_array ty f d c t)"
  by (simp add: new_array_def map_sum_ebind alloc_def)

lemma new_instance_error:
  "new_instance (f\<lparr>error := e\<rparr>) r d = map_sum id (error_update (\<lambda>_. e)) (new_instance f r d)"
  by (simp add: new_instance_def map_sum_ebind alloc_def)

lemma aget_error:
  "aget (f\<lparr>error := e\<rparr>) d a i = map_sum id (error_update (\<lambda>_. e)) (aget f d a i)"
  by (simp add: aget_def map_sum_ebind index_error_error
      if_distrib[of "map_sum id (error_update (\<lambda>_. e))"] cong: if_cong)

lemma aput_error:
  "aput (f\<lparr>error := e\<rparr>) s a i = map_sum id (error_update (\<lambda>_. e)) (aput f s a i)"
  by (simp add: aput_def map_sum_ebind ebind_map_sum index_error_error py_setitem_error py_append_error
      if_distrib[of "map_sum id (error_update (\<lambda>_. e))"] cong: if_cong)

lemma packed_switch_error:
  "packed_switch sv (f\<lparr>error := e\<rparr>) r d = map_sum id (error_update (\<lambda>_. e)) (packed_switch sv f r d)"
  by (simp add: packed_switch_def map_sum_ebind goto_error split_def
      if_distrib[of "map_sum id (error_update (\<lambda>_. e))"] cong: if_cong split: option.split)

lemma sparse_scan_error:
  "sparse_scan sv (f\<lparr>error := e\<rparr>) v bs = map_sum id (error_update (\<lambda>_. e)) (sparse_scan sv f v bs)"
proof (induction bs)
  case Nil
  then show ?case by simp
next
  case (Cons a bs)
  obtain k l where a: "a = (k, l)" by (cases a)
  show ?case
  proof (cases "sv k")
    case (Inl x)
    then show ?thesis by (simp add: a)
  next
    case svk: (Inr x)
    show ?thesis
    proof (cases "py_eq x v")
      case (Inl y)
      with svk show ?thesis by (simp add: a)
    next
      case (Inr c)
      with svk Cons.IH show ?thesis by (simp add: a goto_error id_def)
    qed
  qed
qed

lemma sparse_switch_error:
  "sparse_switch sv (f\<lparr>error := e\<rparr>) r d = map_sum id (error_update (\<lambda>_. e)) (sparse_switch sv f r d)"
  by (auto simp add: sparse_switch_def map_sum_ebind sparse_scan_error intro!: ebind_cong_right
      split: option.split switch_table.split)

lemma throw_error:
  "throw (f\<lparr>error := e\<rparr>) r = throw f r"
  by (simp add: throw_def)

lemma Class_error: "Class m = Some native \<Longrightarrow> native (f\<lparr>error := e\<rparr>) x = native f x"
  by (auto simp: Class_def split: if_splits pyval.splits)

lemma Object_error: "Object m = Some native \<Longrightarrow> native (f\<lparr>error := e\<rparr>) x = native f x"
  by (auto simp: Object_def split: if_splits pyval.splits)

lemma invoke_error:
  "invoke (f\<lparr>error := e\<rparr>) t rs ow m = map_sum id (error_update (\<lambda>_. e)) (invoke f t rs ow m)"
proof -
  have c: "\<And>native x. Class m = Some native \<Longrightarrow> native (f\<lparr>error := e\<rparr>) x = native f x"
    by (rule Class_error)
  have o: "\<And>native x. Object m = Some native \<Longrightarrow> native (f\<lparr>error := e\<rparr>) x = native f x"
    by (rule Object_error)
  show ?thesis
    unfolding invoke_def
    by (cases "Class m"; cases "Object m")
      (simp_all add: map_sum_ebind c o split_def if_distrib[of "map_sum id (error_update (\<lambda>_. e))"]
        cong: if_cong option.case_cong)
qed

lemma or_int__2addr_error:
  "or_int__2addr (f\<lparr>error := e\<rparr>) d s = map_sum id (error_update (\<lambda>_. e)) (or_int__2addr f d s)"
  by (simp add: or_int__2addr_def binop_2addr_error)

lemma or_int_error:
  "or_int (f\<lparr>error := e\<rparr>) d l r = map_sum id (error_update (\<lambda>_. e)) (or_int f d l r)"
  by (simp add: or_int_def binop_error)

lemma and_int__2addr_error:
  "and_int__2addr (f\<lparr>error := e\<rparr>) d s = map_sum id (error_update (\<lambda>_. e)) (and_int__2addr f d s)"
  by (simp add: and_int__2addr_def binop_2addr_error)

lemma and_int_error:
  "and_int (f\<lparr>error := e\<rparr>) d l r = map_sum id (error_update (\<lambda>_. e)) (and_int f d l r)"
  by (simp add: and_int_def binop_error)

lemma sub_int__2addr_error:
  "sub_int__2addr (f\<lparr>error := e\<rparr>) d s = map_sum id (error_update (\<lambda>_. e)) (sub_int__2addr f d s)"
  by (simp add: sub_int__2addr_def binop_2addr_error)

lemma sub_int_error:
  "sub_int (f\<lparr>error := e\<rparr>) d l r = map_sum id (error_update (\<lambda>_. e)) (sub_int f d l r)"
  by (simp add: sub_int_def binop_error)

lemma xor_int__2addr_error:
  "xor_int__2addr (f\<lparr>error := e\<rparr>) d s = map_sum id (error_update (\<lambda>_. e)) (xor_int__2addr f d s)"
  by (simp add: xor_int__2addr_def binop_2addr_error)

lemma xor_int_error:
  "xor_int (f\<lparr>error := e\<rparr>) d l r = map_sum id (error_update (\<lambda>_. e)) (xor_int f d l r)"
  by (simp add: xor_int_def binop_error)

lemma add_int__2addr_error:
  "add_int__2addr (f\<lparr>error := e\<rparr>) d s = map_sum id (error_update (\<lambda>_. e)) (add_int__2addr f d s)"
  by (simp add: add_int__2addr_def binop_2addr_error)

lemma add_int_error:
  "add_int (f\<lparr>error := e\<rparr>) d l r = map_sum id (error_update (\<lambda>_. e)) (add_int f d l r)"
  by (simp add: add_int_def binop_error)

lemma div_int__2addr_error:
  "div_int__2addr (f\<lparr>error := e\<rparr>) d s = map_sum id (error_update (\<lambda>_. e)) (div_int__2addr f d s)"
  by (simp add: div_int__2addr_def binop_2addr_error)

lemma div_int_error:
  "div_int (f\<lparr>error := e\<rparr>) d l r = map_sum id (error_update (\<lambda>_. e)) (div_int f d l r)"
  by (simp add: div_int_def binop_error)

lemma div_float__2addr_error:
  "div_float__2addr (f\<lparr>error := e\<rparr>) d s = map_sum id (error_update (\<lambda>_. e)) (div_float__2addr f d s)"
  by (simp add: div_float__2addr_def binop_2addr_error)

lemma div_float_error:
  "div_float (f\<lparr>error := e\<rparr>) d l r = map_sum id (error_update (\<lambda>_. e)) (div_float f d l r)"
  by (simp add: div_float_def binop_error)

lemma shl_int__2addr_error:
  "shl_int__2addr (f\<lparr>error := e\<rparr>) d s = map_sum id (error_update (\<lambda>_. e)) (shl_int__2addr f d s)"
  by (simp add: shl_int__2addr_def binop_2addr_error)

lemma shl_int_error:
  "shl_int (f\<lparr>error := e\<rparr>) d l r = map_sum id (error_update (\<lambda>_. e)) (shl_int f d l r)"
  by (simp add: shl_int_def binop_error)

lemma shr_int__2addr_error:
  "shr_int__2addr (f\<lparr>error := e\<rparr>) d s = map_sum id (error_update (\<lambda>_. e)) (shr_int__2addr f d s)"
  by (simp add: shr_int__2addr_def binop_2addr_error)

lemma shr_int_error:
  "shr_int (f\<lparr>error := e\<rparr>) d l r = map_sum id (error_update (\<lambda>_. e)) (shr_int f d l r)"
  by (simp add: shr_int_def binop_error)

lemma rem_int__2addr_error:
  "rem_int__2addr (f\<lparr>error := e\<rparr>) d s = map_sum id (error_update (\<lambda>_. e)) (rem_int__2addr f d s)"
  by (simp add: rem_int__2addr_def binop_2addr_error)

lemma rem_int_error:
  "rem_int (f\<lparr>error := e\<rparr>) d l r = map_sum id (error_update (\<lambda>_. e)) (rem_int f d l r)"
  by (simp add: rem_int_def binop_error)

lemma mul_int__2addr_error:
  "mul_int__2addr (f\<lparr>error := e\<rparr>) d s = map_sum id (error_update (\<lambda>_. e)) (mul_int__2addr f d s)"
  by (simp add: mul_int__2addr_def binop_2addr_error)

lemma mul_int_error:
  "mul_int (f\<lparr>error := e\<rparr>) d l r = map_sum id (error_update (\<lambda>_. e)) (mul_int f d l r)"
  by (simp add: mul_int_def binop_error)

lemma div_int__lit8_error:
  "div_int__lit8 sv (f\<lparr>error := e\<rparr>) d l r = map_sum id (error_update (\<lambda>_. e)) (div_int__lit8 sv f d l r)"
  by (simp add: div_int__lit8_def binop_lit_error)

lemma div_int__lit16_error:
  "div_int__lit16 sv (f\<lparr>error := e\<rparr>) d l r = map_sum id (error_update (\<lambda>_. e)) (div_int__lit16 sv f d l r)"
  by (simp add: div_int__lit16_def binop_lit_error)

lemma add_int__lit8_error:
  "add_int__lit8 sv (f\<lparr>error := e\<rparr>) d l r = map_sum id (error_update (\<lambda>_. e)) (add_int__lit8 sv f d l r)"
  by (simp add: add_int__lit8_def binop_lit_error)

lemma add_int__lit16_error:
  "add_int__lit16 sv (f\<lparr>error := e\<rparr>) d l r = map_sum id (error_update (\<lambda>_. e)) (add_int__lit16 sv f d l r)"
  by (simp add: add_int__lit16_def binop_lit_error)

lemma sub_int__lit8_error:
  "sub_int__lit8 sv (f\<lparr>error := e\<rparr>) d l r = map_sum id (error_update (\<lambda>_. e)) (sub_int__lit8 sv f d l r)"
  by (simp add: sub_int__lit8_def binop_lit_error)

lemma sub_int__lit16_error:
  "sub_int__lit16 sv (f\<lparr>error := e\<rparr>) d l r = map_sum id (error_update (\<lambda>_. e)) (sub_int__lit16 sv f d l r)"
  by (simp add: sub_int__lit16_def binop_lit_error)

lemma mul_int__lit8_error:
  "mul_int__lit8 sv (f\<lparr>error := e\<rparr>) d l r = map_sum id (error_update (\<lambda>_. e)) (mul_int__lit8 sv f d l r)"
  by (simp add: mul_int__lit8_def binop_lit_error)

lemma mul_int__lit16_error:
  "mul_int__lit16 sv (f\<lparr>error := e\<rparr>) d l r = map_sum id (error_update (\<lambda>_. e)) (mul_int__lit16 sv f d l r)"
  by (simp add: mul_int__lit16_def binop_lit_error)

lemma rem_int__lit8_error:
  "rem_int__lit8 sv (f\<lparr>error := e\<rparr>) d l r = map_sum id (error_update (\<lambda>_. e)) (rem_int__lit8 sv f d l r)"
  by (simp add: rem_int__lit8_def binop_lit_error)

lemma rem_int__lit16_error:
  "rem_int__lit16 sv (f\<lparr>error := e\<rparr>) d l r = map_sum id (error_update (\<lambda>_. e)) (rem_int__lit16 sv f d l r)"
  by (simp add: rem_int__lit16_def binop_lit_error)

lemma and_int__lit8_error:
  "and_int__lit8 sv (f\<lparr>error := e\<rparr>) d l r = map_sum id (error_update (\<lambda>_. e)) (and_int__lit8 sv f d l r)"
  by (simp add: and_int__lit8_def binop_lit_error)

lemma and_int__lit16_error:
  "and_int__lit16 sv (f\<lparr>error := e\<rparr>) d l r = map_sum id (error_update (\<lambda>_. e)) (and_int__lit16 sv f d l r)"
  by (simp add: and_int__lit16_def binop_lit_error)

lemma or_int__lit8_error:
  "or_int__lit8 sv (f\<lparr>error := e\<rparr>) d l r = map_sum id (error_update (\<lambda>_. e)) (or_int__lit8 sv f d l r)"
  by (simp add: or_int__lit8_def binop_lit_error)

lemma or_int__lit16_error:
  "or_int__lit16 sv (f\<lparr>error := e\<rparr>) d l r = map_sum id (error_update (\<lambda>_. e)) (or_int__lit16 sv f d l r)"
  by (simp add: or_int__lit16_def binop_lit_error)

lemma xor_int__lit8_error:
  "xor_int__lit8 sv (f\<lparr>error := e\<rparr>) d l r = map_sum id (error_update (\<lambda>_. e)) (xor_int__lit8 sv f d l r)"
  by (simp add: xor_int__lit8_def binop_lit_error)

lemma xor_int__lit16_error:
  "xor_int__lit16 sv (f\<lparr>error := e\<rparr>) d l r = map_sum id (error_update (\<lambda>_. e)) (xor_int__lit16 sv f d l r)"
  by (simp add: xor_int__lit16_def binop_lit_error)

lemma shl_int__lit8_error:
  "shl_int__lit8 sv (f\<lparr>error := e\<rparr>) d l r = map_sum id (error_update (\<lambda>_. e)) (shl_int__lit8 sv f d l r)"
  by (simp add: shl_int__lit8_def binop_lit_error)

lemma shl_int__lit16_error:
  "shl_int__lit16 sv (f\<lparr>error := e\<rparr>) d l r = map_sum id (error_update (\<lambda>_. e)) (shl_int__lit16 sv f d l r)"
  by (simp add: shl_int__lit16_def binop_lit_error)

lemma shr_int__lit8_error:
  "shr_int__lit8 sv (f\<lparr>error := e\<rparr>) d l r = map_sum id (error_update (\<lambda>_. e)) (shr_int__lit8 sv f d l r)"
  by (simp add: shr_int__lit8_def binop_lit_error)

lemma shr_int__lit16_error:
  "shr_int__lit16 sv (f\<lparr>error := e\<rparr>) d l r = map_sum id (error_update (\<lambda>_. e)) (shr_int__lit16 sv f d l r)"
  by (simp add: shr_int__lit16_def binop_lit_error)

lemma rsub_int__lit8_error:
  "rsub_int__lit8 sv (f\<lparr>error := e\<rparr>) d l r = map_sum id (error_update (\<lambda>_. e)) (rsub_int__lit8 sv f d l r)"
  by (simp add: rsub_int__lit8_def map_sum_ebind)

lemma if_le_error:
  "if_le (f\<lparr>error := e\<rparr>) a b l = map_sum id (error_update (\<lambda>_. e)) (if_le f a b l)"
  by (rule branch2_error[of if_le py_le, OF if_le_def])

lemma if_ge_error:
  "if_ge (f\<lparr>error := e\<rparr>) a b l = map_sum id (error_update (\<lambda>_. e)) (if_ge f a b l)"
  by (rule branch2_error[of if_ge py_ge, OF if_ge_def])

lemma if_gt_error:
  "if_gt (f\<lparr>error := e\<rparr>) a b l = map_sum id (error_update (\<lambda>_. e)) (if_gt f a b l)"
  by (rule branch2_error[of if_gt py_gt, OF if_gt_def])

lemma if_lt_error:
  "if_lt (f\<lparr>error := e\<rparr>) a b l = map_sum id (error_update (\<lambda>_. e)) (if_lt f a b l)"
  by (rule branch2_error[of if_lt py_lt, OF if_lt_def])

lemma if_ne_error:
  "if_ne (f\<lparr>error := e\<rparr>) a b l = map_sum id (error_update (\<lambda>_. e)) (if_ne f a b l)"
  by (rule branch2_error[of if_ne py_ne, OF if_ne_def])

lemma if_gez_error:
  "if_gez (f\<lparr>error := e\<rparr>) a l = map_sum id (error_update (\<lambda>_. e)) (if_gez f a l)"
  by (rule branch1_error[of if_gez py_ge, OF if_gez_def])

lemma if_ltz_error:
  "if_ltz (f\<lparr>error := e\<rparr>) a l = map_sum id (error_update (\<lambda>_. e)) (if_ltz f a l)"
  by (rule branch1_error[of if_ltz py_lt, OF if_ltz_def])

lemma if_gtz_error:
  "if_gtz (f\<lparr>error := e\<rparr>) a l = map_sum id (error_update (\<lambda>_. e)) (if_gtz f a l)"
  by (rule branch1_error[of if_gtz py_gt, OF if_gtz_def])

lemma if_lez_error:
  "if_lez (f\<lparr>error := e\<rparr>) a l = map_sum id (error_update (\<lambda>_. e)) (if_lez f a l)"
  by (rule branch1_error[of if_lez py_le, OF if_lez_def])

lemma if_nez_error:
  "if_nez (f\<lparr>error := e\<rparr>) a l = map_sum id (error_update (\<lambda>_. e)) (if_nez f a l)"
  by (rule branch1_error[of if_nez py_ne, OF if_nez_def])

lemma if_eqz_error:
  "if_eqz (f\<lparr>error := e\<rparr>) a l = map_sum id (error_update (\<lambda>_. e)) (if_eqz f a l)"
  by (rule branch1_error[of if_eqz py_eq, OF if_eqz_def])

lemma params0_error:
  assumes "\<And>f. h (f\<lparr>error := e\<rparr>) = map_sum id (error_update (\<lambda>_. e)) (h f)"
  shows "params0 h (f\<lparr>error := e\<rparr>) ops = map_sum id (error_update (\<lambda>_. e)) (params0 h f ops)"
  by (simp add: params0_def assms split: list.split)

lemma params1_error:
  assumes "\<And>f a. h (f\<lparr>error := e\<rparr>) a = map_sum id (error_update (\<lambda>_. e)) (h f a)"
  shows "params1 h (f\<lparr>error := e\<rparr>) ops = map_sum id (error_update (\<lambda>_. e)) (params1 h f ops)"
  by (simp add: params1_def assms split: list.split operand.split)

lemma params2_error:
  assumes "\<And>f a b. h (f\<lparr>error := e\<rparr>) a b = map_sum id (error_update (\<lambda>_. e)) (h f a b)"
  shows "params2 h (f\<lparr>error := e\<rparr>) ops = map_sum id (error_update (\<lambda>_. e)) (params2 h f ops)"
  by (simp add: params2_def assms split: list.split operand.split)

lemma params3_error:
  assumes "\<And>f a b c. h (f\<lparr>error := e\<rparr>) a b c = map_sum id (error_update (\<lambda>_. e)) (h f a b c)"
  shows "params3 h (f\<lparr>error := e\<rparr>) ops = map_sum id (error_update (\<lambda>_. e)) (params3 h f ops)"
  by (simp add: params3_def assms split: list.split operand.split)

lemma params_invoke_error:
  "params_invoke (f\<lparr>error := e\<rparr>) ops = map_sum id (error_update (\<lambda>_. e)) (params_invoke f ops)"
  by (simp add: params_invoke_def invoke_error split: list.split operand.split)

lemma params1_throw_error:
  "params1 throw (f\<lparr>error := e\<rparr>) ops = params1 throw f ops"
  by (simp add: params1_def throw_error split: list.split operand.split)

text \<open>
  Claim C7. \<open>throw\<close> on a register that holds a value raises nothing: it returns the frame
  with the value, wrapped as the payload of a \<^verbatim>\<open>RuntimeError\<close>, in the error slot and
  with everything else (registers and position among it) as before. \<open>move_exception\<close>
  copies the error slot to the destination register. Of all the handlers the module defines,
  \<open>move_exception\<close> is the only one whose effect depends on the content of the error slot:
  \<open>throw\<close> gives the same frame whatever the slot held, and every other handler gives the
  same outcome with the slot passed through untouched.
\<close>

theorem error_slot_read_by_move_exception_only:
  "(\<forall>r v. registers f r = Some v \<longrightarrow>
       throw f r = Inr (f\<lparr>error := VExecutionError ''RuntimeError'' v\<rparr>))
   \<and> (\<forall>d. move_exception f d = Inr (f\<lparr>registers := (registers f)(d \<mapsto> error f)\<rparr>))
   \<and> (\<forall>s \<in> set (module_stmts sv ty opc). \<forall>ops e.
         (fn_name (func_of s) = ''throw'' \<longrightarrow>
            body (func_of s) (f\<lparr>error := e\<rparr>) ops = body (func_of s) f ops)
       \<and> (fn_name (func_of s) \<notin> {''throw'', ''move_exception''} \<longrightarrow>
            body (func_of s) (f\<lparr>error := e\<rparr>) ops
              = map_sum id (error_update (\<lambda>_. e)) (body (func_of s) f ops)))"
proof (intro conjI)
  show "\<forall>r v. registers f r = Some v \<longrightarrow>
       throw f r = Inr (f\<lparr>error := VExecutionError ''RuntimeError'' v\<rparr>)"
    by (simp add: throw_def getreg_def)
  show "\<forall>d. move_exception f d = Inr (f\<lparr>registers := (registers f)(d \<mapsto> error f)\<rparr>)"
    by (simp add: move_exception_def setreg_def)
  show "\<forall>s \<in> set (module_stmts sv ty opc). \<forall>ops e.
         (fn_name (func_of s) = ''throw'' \<longrightarrow>
            body (func_of s) (f\<lparr>error := e\<rparr>) ops = body (func_of s) f ops)
       \<and> (fn_name (func_of s) \<notin> {''throw'', ''move_exception''} \<longrightarrow>
            body (func_of s) (f\<lparr>error := e\<rparr>) ops
              = map_sum id (error_update (\<lambda>_. e)) (body (func_of s) f ops))"
  proof -
    note module_body_error =
    params0_error[of nop, OF nop_error] params0_error[of return_void, OF return_void_error]
    params1_error[of return_object, OF return_object_error] params1_error[of goto, OF goto_error]
    params_invoke_error params2_error[of int_to_long, OF int_to_long_error] params2_error[of
    int_to_int, OF int_to_int_error] params2_error[of int_to_char, OF int_to_char_error]
    params2_error[of int_to_byte, OF int_to_byte_error] params2_error[of int_to_float, OF
    int_to_float_error] params2_error[of sput_object, OF sput_object_error] params2_error[of
    sget_object, OF sget_object_error] params3_error[of iget_object, OF iget_object_error]
    params3_error[of iput_object, OF iput_object_error] params2_error[of "const sv", OF
    const_error] params2_error[of const_class, OF const_class_error] params1_error[of move_result,
    OF move_result_error] params2_error[of move, OF move_error] params2_error[of new_instance, OF
    new_instance_error] params3_error[of "new_array ty", OF new_array_error] params2_error[of
    "packed_switch sv", OF packed_switch_error] params2_error[of "sparse_switch sv", OF
    sparse_switch_error] params3_error[of if_le, OF if_le_error] params3_error[of if_ge, OF
    if_ge_error] params2_error[of if_gez, OF if_gez_error] params2_error[of if_ltz, OF
    if_ltz_error] params3_error[of if_gt, OF if_gt_error] params3_error[of if_lt, OF if_lt_error]
    params2_error[of if_gtz, OF if_gtz_error] params3_error[of if_ne, OF if_ne_error]
    params2_error[of if_lez, OF if_lez_error] params2_error[of if_nez, OF if_nez_error]
    params2_error[of if_eqz, OF if_eqz_error] params2_error[of array_length, OF array_length_error]
    params2_error[of fill_array_data, OF fill_array_data_error] params3_error[of aget, OF
    aget_error] params3_error[of aput, OF aput_error] params2_error[of neg_int, OF neg_int_error]
    params2_error[of or_int__2addr, OF or_int__2addr_error] params2_error[of and_int__2addr, OF
    and_int__2addr_error] params2_error[of sub_int__2addr, OF sub_int__2addr_error]
    params2_error[of xor_int__2addr, OF xor_int__2addr_error] params2_error[of add_int__2addr, OF
    add_int__2addr_error] params2_error[of div_int__2addr, OF div_int__2addr_error]
    params2_error[of div_float__2addr, OF div_float__2addr_error] params2_error[of shl_int__2addr,
    OF shl_int__2addr_error] params2_error[of shr_int__2addr, OF shr_int__2addr_error]
    params2_error[of rem_int__2addr, OF rem_int__2addr_error] params2_error[of mul_int__2addr, OF
    mul_int__2addr_error] params3_error[of "div_int__lit8 sv", OF div_int__lit8_error]
    params3_error[of "div_int__lit16 sv", OF div_int__lit16_error] params3_error[of "add_int__lit8
    sv", OF add_int__lit8_error] params3_error[of "add_int__lit16 sv", OF add_int__lit16_error]
    params3_error[of "sub_int__lit8 sv", OF sub_int__lit8_error] params3_error[of "sub_int__lit16
    sv", OF sub_int__lit16_error] params3_error[of "mul_int__lit8 sv", OF mul_int__lit8_error]
    params3_error[of "mul_int__lit16 sv", OF mul_int__lit16_error] params3_error[of "rem_int__lit8
    sv", OF rem_int__lit8_error] params3_error[of "rem_int__lit16 sv", OF rem_int__lit16_error]
    params3_error[of "and_int__lit8 sv", OF and_int__lit8_error] params3_error[of "and_int__lit16
    sv", OF and_int__lit16_error] params3_error[of "or_int__lit8 sv", OF or_int__lit8_error]
    params3_error[of "or_int__lit16 sv", OF or_int__lit16_error] params3_error[of "xor_int__lit8
    sv", OF xor_int__lit8_error] params3_error[of "xor_int__lit16 sv", OF xor_int__lit16_error]
    params3_error[of "shl_int__lit8 sv", OF shl_int__lit8_error] params3_error[of "shl_int__lit16
    sv", OF shl_int__lit16_error] params3_error[of "shr_int__lit8 sv", OF shr_int__lit8_error]
    params3_error[of "shr_int__lit16 sv", OF shr_int__lit16_error] params3_error[of "rsub_int__lit8
    sv", OF rsub_int__lit8_error] params3_error[of div_int, OF div_int_error] params3_error[of
    div_float, OF div_float_error] params3_error[of add_int, OF add_int_error] params3_error[of
    sub_int, OF sub_int_error] params3_error[of rem_int, OF rem_int_error] params3_error[of
    mul_int, OF mul_int_error] params3_error[of or_int, OF or_int_error] params3_error[of and_int,
    OF and_int_error] params3_error[of xor_int, OF xor_int_error] params3_error[of shl_int, OF
    shl_int_error] params3_error[of shr_int, OF shr_int_error]
    show ?thesis
      unfolding module_stmts_def
      by (simp add: module_body_error params1_throw_error)
  qed
qed

theorem error_slot_read_by_move_exception_only_witness:
  "throw example_frame ''v5''
     = Inr (example_frame\<lparr>error := VExecutionError ''RuntimeError'' (VInt 3)\<rparr>)
   \<and> move_exception (example_frame\<lparr>error := VExecutionError ''RuntimeError'' (VInt 3)\<rparr>) ''v9''
     = Inr (example_frame\<lparr>error := VExecutionError ''RuntimeError'' (VInt 3),
              registers := (registers example_frame)
                (''v9'' \<mapsto> VExecutionError ''RuntimeError'' (VInt 3))\<rparr>)
   \<and> params1 goto (example_frame\<lparr>error := VInt 1\<rparr>) [OStr ''L'']
     = Inr (example_frame\<lparr>label := Some ''L'', pos := 7, error := VInt 1\<rparr>)
   \<and> params1 throw (example_frame\<lparr>error := VInt 1\<rparr>) [OStr ''v5'']
     = Inr (example_frame\<lparr>error := VExecutionError ''RuntimeError'' (VInt 3)\<rparr>)"
proof -
  note t = error_slot_read_by_move_exception_only[of example_frame dec_literal "\<lambda>d. Inr d" "\<lambda>ident. ident"]
  note u = error_slot_read_by_move_exception_only[
      of "example_frame\<lparr>error := VExecutionError ''RuntimeError'' (VInt 3)\<rparr>"
         dec_literal "\<lambda>d. Inr d" "\<lambda>ident. ident"]
  have g: "Decorated [''GOTO_16'', ''GOTO_32''] \<lparr>fn_name = ''goto'', body = params1 goto\<rparr>
      \<in> set (module_stmts dec_literal (\<lambda>d. Inr d) (\<lambda>ident. ident))"
    and h: "Decorated [] \<lparr>fn_name = ''throw'', body = params1 throw\<rparr>
      \<in> set (module_stmts dec_literal (\<lambda>d. Inr d) (\<lambda>ident. ident))"
    by (simp_all add: module_stmts_def)
  have a: "throw example_frame ''v5''
     = Inr (example_frame\<lparr>error := VExecutionError ''RuntimeError'' (VInt 3)\<rparr>)"
    using t example_registers(6) by blast
  have b: "move_exception (example_frame\<lparr>error := VExecutionError ''RuntimeError'' (VInt 3)\<rparr>) ''v9''
     = Inr (example_frame\<lparr>error := VExecutionError ''RuntimeError'' (VInt 3),
              registers := (registers example_frame)
                (''v9'' \<mapsto> VExecutionError ''RuntimeError'' (VInt 3))\<rparr>)"
    using u[THEN conjunct2, THEN conjunct1, rule_format, of "''v9''"] by simp
  have c: "params1 goto (example_frame\<lparr>error := VInt 1\<rparr>) [OStr ''L'']
     = map_sum id (error_update (\<lambda>_. VInt 1)) (params1 goto example_frame [OStr ''L''])"
    using t[THEN conjunct2, THEN conjunct2, rule_format, OF g, THEN conjunct2, of "VInt 1" "[OStr ''L'']"]
    by simp
  have c': "params1 goto example_frame [OStr ''L''] = Inr (example_frame\<lparr>label := Some ''L'', pos := 7\<rparr>)"
    by (simp add: params1_def goto_def example_frame_def)
  have d: "params1 throw (example_frame\<lparr>error := VInt 1\<rparr>) [OStr ''v5'']
     = params1 throw example_frame [OStr ''v5'']"
    using t[THEN conjunct2, THEN conjunct2, rule_format, OF h, THEN conjunct1, of "VInt 1" "[OStr ''v5'']"]
    by simp
  have d': "params1 throw example_frame [OStr ''v5''] = throw example_frame ''v5''"
    by (simp add: params1_def)
  show ?thesis
    using a b c c' d d' by simp
qed

section \<open>Dispatch through an executor\<close>




end
